theory Spec2Isabelle
  imports Main "HOL-Library.AList"
begin

section \<open>The iOS simulator server of \<^verbatim>\<open>src/index.ts\<close>\<close>

text \<open>
  The program is one TypeScript module: a process-wide \<^verbatim>\<open>Map\<close> of screenshots, a
  helper that registers a screenshot as a resource of the server, one aggregate
  resource, and five tool handlers. Each handler is a \<^verbatim>\<open>try\<close> block with a
  \<^verbatim>\<open>catch\<close> that turns whatever was thrown into a text response.

  Strings are lists of 8-bit characters; a JavaScript string whose code units all lie
  below 256 is modelled exactly, and the theory says nothing about other strings.
\<close>

subsection \<open>JavaScript values used by the module\<close>

text \<open>
  A thrown value. The handlers only ever look at \<^verbatim>\<open>error.message\<close> and at
  \<^verbatim>\<open>String(error)\<close>, so a thrown value is these two observations.
\<close>

datatype thrown = Thrown (message: "string option") (as_string: string)

text \<open>
  \<^verbatim>\<open>new Error(msg)\<close>. \<^verbatim>\<open>String\<close> of it is the name \<^verbatim>\<open>Error\<close> alone when the
  message is empty, and the name, a colon, a space and the message otherwise.
\<close>

definition new_Error :: "string \<Rightarrow> thrown" where
  "new_Error msg = Thrown (Some msg) (if msg = [] then ''Error'' else ''Error: '' @ msg)"

text \<open>\<^verbatim>\<open>error.message || String(error)\<close>: an absent or empty message is falsy.\<close>

definition message_or_string :: "thrown \<Rightarrow> string" where
  "message_or_string e =
     (case message e of
        None \<Rightarrow> as_string e
      | Some m \<Rightarrow> if m = [] then as_string e else m)"

text \<open>\<^verbatim>\<open>a || b\<close> on an optional string: \<^verbatim>\<open>undefined\<close> and \<^verbatim>\<open>""\<close> are falsy.\<close>

definition or_else :: "string option \<Rightarrow> string \<Rightarrow> string" where
  "or_else a b = (case a of None \<Rightarrow> b | Some x \<Rightarrow> if x = [] then b else x)"

text \<open>The decimal numeral of a natural number, as a template literal prints it.\<close>

definition digit_char :: "nat \<Rightarrow> char" where
  "digit_char d = char_of (48 + d)"

function decimal :: "nat \<Rightarrow> string" where
  "decimal n = (if n < 10 then [digit_char n] else decimal (n div 10) @ [digit_char (n mod 10)])"
  by pat_completeness auto
termination
  by (relation "measure id") auto

declare decimal.simps [simp del]

subsection \<open>String operations of the booted-device scan\<close>

text \<open>\<^verbatim>\<open>s.split(sep)\<close> for a one-character separator: never the empty array.\<close>

fun split :: "char \<Rightarrow> string \<Rightarrow> string list" where
  "split sep [] = [[]]"
| "split sep (c # cs) =
     (if c = sep then [] # split sep cs
      else (case split sep cs of
              [] \<Rightarrow> [[c]]
            | piece # pieces \<Rightarrow> (c # piece) # pieces))"

text \<open>\<^verbatim>\<open>s.startsWith(p)\<close> and \<^verbatim>\<open>s.includes(p)\<close>.\<close>

fun starts_with :: "string \<Rightarrow> string \<Rightarrow> bool" where
  "starts_with s [] = True"
| "starts_with [] (p # ps) = False"
| "starts_with (c # cs) (p # ps) = (c = p \<and> starts_with cs ps)"

fun includes_str :: "string \<Rightarrow> string \<Rightarrow> bool" where
  "includes_str [] p = starts_with [] p"
| "includes_str (c # cs) p = (starts_with (c # cs) p \<or> includes_str cs p)"

text \<open>
  \<^verbatim>\<open>s.trim()\<close>. The white space and line terminators of JavaScript below code unit
  256 are TAB, LF, VT, FF, CR, SPACE and NO-BREAK SPACE.
\<close>

definition is_space :: "char \<Rightarrow> bool" where
  "is_space c = (of_char c \<in> {9, 10, 11, 12, 13, 32, 160 :: nat})"

definition trim :: "string \<Rightarrow> string" where
  "trim s = rev (dropWhile is_space (rev (dropWhile is_space s)))"

text \<open>
  The pattern \<^verbatim>\<open>/\(([-0-9A-F]+)\)/\<close>. The class holds the hyphen, the ten digits and
  the six upper-case letters A to F. At a given position the pattern matches when an
  opening parenthesis is followed by a non-empty run of class characters and the run is
  followed by a closing parenthesis; the run is taken greedily, and a shorter run cannot
  match because the character after it is in the class and so is not the closing
  parenthesis. \<^verbatim>\<open>line.match\<close> returns the match at the leftmost position that has
  one; \<^verbatim>\<open>match[1]\<close> is the run.
\<close>

definition id_char :: "char \<Rightarrow> bool" where
  "id_char c = (c \<in> set ''-0123456789ABCDEF'')"

fun match_here :: "string \<Rightarrow> string option" where
  "match_here [] = None"
| "match_here (c # cs) =
     (if c = CHR ''(''
      then (let run = takeWhile id_char cs; rest = dropWhile id_char cs
            in if run \<noteq> [] \<and> starts_with rest '')'' then Some run else None)
      else None)"

fun match_uuid :: "string \<Rightarrow> string option" where
  "match_uuid [] = None"
| "match_uuid (c # cs) =
     (case match_here (c # cs) of
        Some run \<Rightarrow> Some run
      | None \<Rightarrow> match_uuid cs)"

subsection \<open>Responses\<close>

text \<open>
  A tool response is the list \<^verbatim>\<open>content\<close> of its items: a text item with its
  text, an image item with its data and its MIME type.
\<close>

datatype content = Text string | Image string string

type_synonym response = "content list"

text \<open>The \<^verbatim>\<open>for\<close> loop of \<^verbatim>\<open>get_booted_sim_id\<close> over the lines of the listing.\<close>

fun scan_lines :: "string list \<Rightarrow> response" where
  "scan_lines [] = [Text ''No booted simulator found.'']"
| "scan_lines (line # lines) =
     (if includes_str line ''Booted''
      then (case match_uuid line of
              Some deviceId \<Rightarrow>
                (let deviceName = trim (hd (split CHR ''('' line))
                 in [Text (''Booted Simulator: '' @ deviceName @ ''\<newline>UUID: '' @ deviceId)])
            | None \<Rightarrow> scan_lines lines)
      else scan_lines lines)"

subsection \<open>The operating system and the Node library\<close>

text \<open>
  The module reaches the outside through \<^verbatim>\<open>child_process.exec\<close>, \<^verbatim>\<open>fs\<close>,
  \<^verbatim>\<open>path\<close>, \<^verbatim>\<open>Date.now\<close>, \<^verbatim>\<open>Buffer.toString("base64")\<close> and \<^verbatim>\<open>process.env\<close>.
  None of them is code of the module, so they are parameters: a record of functions over
  an arbitrary type \<open>'w\<close> of states of the outside world (simulators, disk, clock). A call
  that can throw returns a sum; a call that can change the world returns the new world,
  also when it throws.
\<close>

record 'w os =
  execAsync :: "string \<Rightarrow> 'w \<Rightarrow> (thrown + string) \<times> 'w"
  existsSync :: "string \<Rightarrow> 'w \<Rightarrow> bool"
  mkdirSync :: "string \<Rightarrow> bool \<Rightarrow> 'w \<Rightarrow> (thrown + unit) \<times> 'w"
  readFileSync :: "string \<Rightarrow> 'w \<Rightarrow> thrown + string"
  Date_now :: "'w \<Rightarrow> nat"
  path_join :: "string list \<Rightarrow> string"
  path_dirname :: "string \<Rightarrow> string"
  path_resolve :: "string \<Rightarrow> string"
  toString_base64 :: "string \<Rightarrow> string"
  env_SCREENSHOT_RESOURCE_DIR :: "string option"
  env_HOME :: "string option"

text \<open>
  \<^verbatim>\<open>execAsync\<close> resolves to the standard output of the command (the module never reads
  the standard error). The second argument of \<^verbatim>\<open>mkdirSync\<close> is the option
  \<^verbatim>\<open>recursive\<close>.
\<close>

text \<open>The calls that act on the world, in the order the module makes them.\<close>

datatype os_call = Exec string | Mkdir string bool

subsection \<open>The state of the process\<close>

text \<open>
  A resource of the server is read through its callback. The module has two kinds: the
  callback of \<^verbatim>\<open>screenshot://list\<close>, which reads the keys of the map when it is
  called, and the callback created by \<^verbatim>\<open>registerScreenshotResource\<close>, a closure over
  the argument \<^verbatim>\<open>data\<close> of that call.
\<close>

datatype callback = ListCallback | ScreenshotCallback string

text \<open>An item of what a read returns: URI, MIME type, and the text or the blob.\<close>

datatype resource_content =
    TextContent string string string
  | BlobContent string string string

text \<open>
  \<^verbatim>\<open>screenshots\<close> is the \<^verbatim>\<open>Map\<close> of the module, kept in insertion order as
  \<^verbatim>\<open>Map\<close> does. \<^verbatim>\<open>resources\<close> is the table of the server object: URI, name and
  callback of each registered resource. \<^verbatim>\<open>world\<close> is the outside world and
  \<^verbatim>\<open>calls\<close> the log of the calls made to it.
\<close>

record 'w state =
  screenshots :: "(string \<times> string) list"
  resources :: "(string \<times> string \<times> callback) list"
  world :: "'w"
  calls :: "os_call list"

text \<open>The operations of \<^verbatim>\<open>Map\<close> the module uses.\<close>

definition Map_set :: "string \<Rightarrow> string \<Rightarrow> (string \<times> string) list \<Rightarrow> (string \<times> string) list" where
  "Map_set k v m = AList.update k v m"

definition Map_has :: "string \<Rightarrow> (string \<times> string) list \<Rightarrow> bool" where
  "Map_has k m = (k \<in> set (map fst m))"

definition Map_delete :: "string \<Rightarrow> (string \<times> string) list \<Rightarrow> (string \<times> string) list" where
  "Map_delete k m = AList.delete k m"

definition Map_keys :: "(string \<times> string) list \<Rightarrow> string list" where
  "Map_keys m = map fst m"

text \<open>\<^verbatim>\<open>Map.get\<close>; the module never calls it, the properties below read the map with it.\<close>

definition Map_get :: "string \<Rightarrow> (string \<times> string) list \<Rightarrow> string option" where
  "Map_get k m = map_of m k"

text \<open>\<^verbatim>\<open>xs.join(sep)\<close>.\<close>

fun join :: "string \<Rightarrow> string list \<Rightarrow> string" where
  "join sep [] = []"
| "join sep [x] = x"
| "join sep (x # y # ys) = x @ sep @ join sep (y # ys)"

subsection \<open>Computations that may throw\<close>

text \<open>
  A piece of a handler takes the state and returns the new state together with either
  the value thrown or the value returned. \<open>bind\<close> is sequencing in a \<^verbatim>\<open>try\<close> block:
  the rest does not run after a throw. \<open>try_catch\<close> is \<^verbatim>\<open>try { ... } catch (error) { ... }\<close>.
\<close>

type_synonym ('w, 'a) action = "'w state \<Rightarrow> (thrown + 'a) \<times> 'w state"

definition ret :: "'a \<Rightarrow> ('w, 'a) action" where
  "ret a s = (Inr a, s)"

definition bind :: "('w, 'a) action \<Rightarrow> ('a \<Rightarrow> ('w, 'b) action) \<Rightarrow> ('w, 'b) action" where
  "bind m f s = (case m s of (Inl e, s') \<Rightarrow> (Inl e, s') | (Inr a, s') \<Rightarrow> f a s')"

definition try_catch :: "('w, 'a) action \<Rightarrow> (thrown \<Rightarrow> ('w, 'a) action) \<Rightarrow> ('w, 'a) action" where
  "try_catch m h s = (case m s of (Inl e, s') \<Rightarrow> h e s' | (Inr a, s') \<Rightarrow> (Inr a, s'))"

definition do_exec :: "'w os \<Rightarrow> string \<Rightarrow> ('w, string) action" where
  "do_exec os command s =
     (case execAsync os command (world s) of
        (r, w) \<Rightarrow> (r, s\<lparr>world := w, calls := calls s @ [Exec command]\<rparr>))"

definition do_mkdir :: "'w os \<Rightarrow> string \<Rightarrow> bool \<Rightarrow> ('w, unit) action" where
  "do_mkdir os dir recursive s =
     (case mkdirSync os dir recursive (world s) of
        (r, w) \<Rightarrow> (r, s\<lparr>world := w, calls := calls s @ [Mkdir dir recursive]\<rparr>))"

definition do_read :: "'w os \<Rightarrow> string \<Rightarrow> ('w, string) action" where
  "do_read os file s = (readFileSync os file (world s), s)"

subsection \<open>The server object\<close>

text \<open>
  \<^verbatim>\<open>server.resource(name, uri, callback)\<close> is a method of the class \<^verbatim>\<open>McpServer\<close> of
  the package \<^verbatim>\<open>@modelcontextprotocol/sdk\<close>, which the module imports. It refuses a URI
  that is already in its table by throwing
  \<^verbatim>\<open>new Error(`Resource ${uri} is already registered`)\<close>, and otherwise adds the entry.
\<close>

definition server_resource :: "string \<Rightarrow> string \<Rightarrow> callback \<Rightarrow> ('w, unit) action" where
  "server_resource name uri cb s =
     (if uri \<in> set (map fst (resources s))
      then (Inl (new_Error (''Resource '' @ uri @ '' is already registered'')), s)
      else (Inr (), s\<lparr>resources := resources s @ [(uri, name, cb)]\<rparr>))"

text \<open>What a callback returns when the resource is read under the address \<open>href\<close>.\<close>

fun run_callback :: "callback \<Rightarrow> string \<Rightarrow> 'w state \<Rightarrow> resource_content list" where
  "run_callback ListCallback href s =
     [TextContent href ''text/plain'' (join ''\<newline>'' (Map_keys (screenshots s)))]"
| "run_callback (ScreenshotCallback data) href s =
     [BlobContent href ''image/png'' data]"

text \<open>
  Reading a resource. The server first parses the address of the request with
  \<^verbatim>\<open>new URL\<close>, which can throw and can rewrite the address; that step is not
  modelled. \<open>read_resource\<close> is what follows it, and its argument is the parsed
  address \<^verbatim>\<open>uri.toString()\<close>: the server looks it up in its table and runs the
  callback on it. An address that is not in the table (the module registers no
  template) is a fault of the protocol, kept abstract here.
\<close>

datatype read_fault = Resource_not_found string

definition read_resource :: "string \<Rightarrow> 'w state \<Rightarrow> read_fault + resource_content list" where
  "read_resource uri s =
     (case map_of (resources s) uri of
        None \<Rightarrow> Inl (Resource_not_found uri)
      | Some (name, cb) \<Rightarrow> Inr (run_callback cb uri s))"

subsection \<open>The module\<close>

text \<open>Lines 15 to 17: the screenshot directory.\<close>

definition SCREENSHOT_RESOURCE_DIR :: "'w os \<Rightarrow> string" where
  "SCREENSHOT_RESOURCE_DIR os =
     or_else (env_SCREENSHOT_RESOURCE_DIR os)
       (path_join os [or_else (env_HOME os) [], ''Downloads'', ''ios-simulator-screenshots''])"

text \<open>Lines 34 to 49.\<close>

definition registerScreenshotResource :: "string \<Rightarrow> string \<Rightarrow> ('w, unit) action" where
  "registerScreenshotResource name data s =
     server_resource (''screenshot-'' @ name) (''screenshot://'' @ name) (ScreenshotCallback data)
       (s\<lparr>screenshots := Map_set name data (screenshots s)\<rparr>)"

text \<open>
  Start of the process (lines 19 to 31 and 52 to 62): the directory is created when it
  is absent, outside any \<^verbatim>\<open>try\<close>, then the map is empty and the server holds the
  aggregate resource.
\<close>

definition startup :: "'w os \<Rightarrow> 'w \<Rightarrow> (thrown + unit) \<times> 'w state" where
  "startup os w =
     bind (\<lambda>s. if \<not> existsSync os (SCREENSHOT_RESOURCE_DIR os) (world s)
               then do_mkdir os (SCREENSHOT_RESOURCE_DIR os) True s
               else ret () s)
          (\<lambda>_. server_resource ''screenshot-list'' ''screenshot://list'' ListCallback)
       \<lparr>screenshots = [], resources = [], world = w, calls = []\<rparr>"

text \<open>Lines 68 to 103.\<close>

definition get_booted_sim_id_try :: "'w os \<Rightarrow> ('w, response) action" where
  "get_booted_sim_id_try os =
     bind (do_exec os ''xcrun simctl list devices'')
          (\<lambda>stdout. ret (scan_lines (split CHR ''\<newline>'' stdout)))"

definition get_booted_sim_id :: "'w os \<Rightarrow> ('w, response) action" where
  "get_booted_sim_id os =
     try_catch (get_booted_sim_id_try os)
       (\<lambda>error. ret [Text (''Error: '' @ message_or_string error)])"

text \<open>Lines 109 to 122.\<close>

definition get_all_simulators_try :: "'w os \<Rightarrow> ('w, response) action" where
  "get_all_simulators_try os =
     bind (do_exec os ''xcrun simctl list devices'')
          (\<lambda>stdout. ret [Text stdout])"

definition get_all_simulators :: "'w os \<Rightarrow> ('w, response) action" where
  "get_all_simulators os =
     try_catch (get_all_simulators_try os)
       (\<lambda>error. ret [Text (''Error: '' @ message_or_string error)])"

text \<open>
  Lines 144 to 196. The three values computed before the first effect are functions
  of the arguments and of the clock.
\<close>

definition screenshotName :: "'w os \<Rightarrow> string option \<Rightarrow> 'w \<Rightarrow> string" where
  "screenshotName os name w = or_else name (''screenshot-'' @ decimal (Date_now os w))"

definition actualPath :: "'w os \<Rightarrow> string option \<Rightarrow> string option \<Rightarrow> 'w \<Rightarrow> string" where
  "actualPath os name outputPath w =
     or_else outputPath
       (path_join os [SCREENSHOT_RESOURCE_DIR os, screenshotName os name w @ ''.png''])"

definition screenshot_command :: "string \<Rightarrow> string \<Rightarrow> string" where
  "screenshot_command deviceId file =
     ''xcrun simctl io '' @ deviceId @ '' screenshot '' @ [CHR 0x22] @ file @ [CHR 0x22]"

definition ensure_directory :: "'w os \<Rightarrow> string \<Rightarrow> ('w, unit) action" where
  "ensure_directory os directory s =
     (if \<not> existsSync os directory (world s)
      then do_mkdir os directory True s
      else ret () s)"

definition take_screenshot_try ::
  "'w os \<Rightarrow> string \<Rightarrow> string option \<Rightarrow> string option \<Rightarrow> ('w, response) action" where
  "take_screenshot_try os deviceId name outputPath s =
     (let shot = screenshotName os name (world s);
          file = actualPath os name outputPath (world s);
          directory = path_dirname os file
      in bind (ensure_directory os directory) (\<lambda>_.
         bind (do_exec os (screenshot_command deviceId file)) (\<lambda>_.
         let absolutePath = path_resolve os file
         in bind (do_read os file) (\<lambda>imageBuffer.
            let base64Data = toString_base64 os imageBuffer
            in bind (registerScreenshotResource shot base64Data) (\<lambda>_.
               ret [Text (''Screenshot saved to: '' @ absolutePath
                          @ ''\<newline>Accessible as resource: screenshot://'' @ shot),
                    Image base64Data ''image/png''])))) s)"

definition take_screenshot ::
  "'w os \<Rightarrow> string \<Rightarrow> string option \<Rightarrow> string option \<Rightarrow> ('w, response) action" where
  "take_screenshot os deviceId name outputPath =
     try_catch (take_screenshot_try os deviceId name outputPath)
       (\<lambda>error. ret [Text (''Error taking screenshot: '' @ message_or_string error)])"

text \<open>Lines 207 to 228.\<close>

definition boot_simulator_try :: "'w os \<Rightarrow> string \<Rightarrow> ('w, response) action" where
  "boot_simulator_try os deviceId =
     bind (do_exec os (''xcrun simctl boot '' @ deviceId))
          (\<lambda>stdout. ret [Text (''Successfully booted simulator with ID: '' @ deviceId
                               @ ''\<newline>'' @ stdout)])"

definition boot_simulator :: "'w os \<Rightarrow> string \<Rightarrow> ('w, response) action" where
  "boot_simulator os deviceId =
     try_catch (boot_simulator_try os deviceId)
       (\<lambda>error. ret [Text (''Error booting simulator: '' @ message_or_string error)])"

text \<open>Lines 239 to 273.\<close>

definition delete_screenshot_try :: "string \<Rightarrow> ('w, response) action" where
  "delete_screenshot_try name s =
     (if Map_has name (screenshots s)
      then ret [Text (''Successfully deleted screenshot: '' @ name)]
             (s\<lparr>screenshots := Map_delete name (screenshots s)\<rparr>)
      else ret [Text (''Screenshot not found: '' @ name)] s)"

definition delete_screenshot :: "string \<Rightarrow> ('w, response) action" where
  "delete_screenshot name =
     try_catch (delete_screenshot_try name)
       (\<lambda>error. ret [Text (''Error deleting screenshot: '' @ message_or_string error)])"

subsection \<open>Calls of the five tools\<close>

datatype tool_call =
    GetBootedSimId
  | GetAllSimulators
  | TakeScreenshot string "string option" "string option"
  | BootSimulator string
  | DeleteScreenshot string

fun call_tool :: "'w os \<Rightarrow> tool_call \<Rightarrow> ('w, response) action" where
  "call_tool os GetBootedSimId = get_booted_sim_id os"
| "call_tool os GetAllSimulators = get_all_simulators os"
| "call_tool os (TakeScreenshot deviceId name outputPath) = take_screenshot os deviceId name outputPath"
| "call_tool os (BootSimulator deviceId) = boot_simulator os deviceId"
| "call_tool os (DeleteScreenshot name) = delete_screenshot name"

text \<open>The state after a sequence of calls, whatever each call returned.\<close>

fun call_tools :: "'w os \<Rightarrow> tool_call list \<Rightarrow> 'w state \<Rightarrow> 'w state" where
  "call_tools os [] s = s"
| "call_tools os (c # cs) s = call_tools os cs (snd (call_tool os c s))"

text \<open>
  How the state of the process moves on: by a tool call, or by the world changing
  between two calls. The states the process can be in are those a start that did not
  throw can move on to.
\<close>

inductive evolves :: "'w os \<Rightarrow> 'w state \<Rightarrow> 'w state \<Rightarrow> bool" for os :: "'w os" where
  evolves_refl: "evolves os s s"
| evolves_call: "evolves os s t \<Longrightarrow> evolves os s (snd (call_tool os c t))"
| evolves_world: "evolves os s t \<Longrightarrow> evolves os s (t\<lparr>world := w\<rparr>)"

definition reachable :: "'w os \<Rightarrow> 'w state \<Rightarrow> bool" where
  "reachable os s = (\<exists>w s0. startup os w = (Inr (), s0) \<and> evolves os s0 s)"

text \<open>A response envelope is well formed when it starts with a text item.\<close>

fun well_formed :: "response \<Rightarrow> bool" where
  "well_formed (Text t # items) = True"
| "well_formed items = False"

subsection \<open>Notions of the specification\<close>

text \<open>
  The first parenthesis group of a line, in the words of the specification: the text
  between the first opening parenthesis and the closing parenthesis that follows it.
  The module does not compute it; it is what the scan is compared with.
\<close>

definition first_paren_group :: "string \<Rightarrow> string option" where
  "first_paren_group line =
     (case dropWhile (\<lambda>c. c \<noteq> CHR ''('') line of
        [] \<Rightarrow> None
      | c # rest \<Rightarrow> if CHR '')'' \<in> set rest then Some (takeWhile (\<lambda>c. c \<noteq> CHR '')'') rest) else None)"

text \<open>
  The server holds at most one resource per URI, and every name in the map has a
  resource under its URI.
\<close>

definition names_have_handles :: "'w state \<Rightarrow> bool" where
  "names_have_handles s =
     (distinct (map fst (resources s))
      \<and> (\<forall>n. Map_has n (screenshots s) \<longrightarrow> ''screenshot://'' @ n \<in> set (map fst (resources s))))"

text \<open>
  The invariant of the specification: reading the resource of a name in the map yields
  the bytes the map holds for that name.
\<close>

definition handles_current :: "'w state \<Rightarrow> bool" where
  "handles_current s =
     (\<forall>n data. Map_get n (screenshots s) = Some data \<longrightarrow>
        read_resource (''screenshot://'' @ n) s
          = Inr [BlobContent (''screenshot://'' @ n) ''image/png'' data])"

text \<open>
  The test of the specification for last write wins: register under a name, register
  again under the same name, then read the resource of the name.
\<close>

definition register_register_read ::
  "string \<Rightarrow> string \<Rightarrow> string \<Rightarrow> ('w, read_fault + resource_content list) action" where
  "register_register_read name b1 b2 =
     bind (registerScreenshotResource name b1) (\<lambda>_.
     bind (registerScreenshotResource name b2) (\<lambda>_ s.
     (Inr (read_resource (''screenshot://'' @ name) s), s)))"

subsection \<open>A small world to run the module in\<close>

text \<open>
  One instance of the parameters, for running the handlers on concrete inputs. The
  listing command prints a fixed text; a capture fails for the device \<^verbatim>\<open>NOPE\<close> and
  otherwise stores the next image, a different one each time; the file is read back as
  the image stored last, unless it lies under a directory \<^verbatim>\<open>locked\<close>; no directory
  can be created under \<^verbatim>\<open>/readonly\<close>. \<open>toy_base64\<close> is the base64 encoding on the two images used.
\<close>

record toy_world =
  w_clock :: nat
  w_dirs :: "string list"
  w_shots :: nat
  w_listing :: string

definition toy_exec :: "string \<Rightarrow> toy_world \<Rightarrow> (thrown + string) \<times> toy_world" where
  "toy_exec command w =
     (if command = ''xcrun simctl list devices'' then (Inr (w_listing w), w)
      else if includes_str command ''NOPE'' then (Inl (new_Error (''Command failed: '' @ command)), w)
      else if starts_with command ''xcrun simctl io '' then (Inr [], w\<lparr>w_shots := Suc (w_shots w)\<rparr>)
      else (Inr [], w))"

definition toy_read :: "string \<Rightarrow> toy_world \<Rightarrow> thrown + string" where
  "toy_read file w =
     (if w_shots w = 0 then Inl (new_Error (''ENOENT: no such file or directory, open '' @ file))
      else if includes_str file ''/locked/'' then Inl (new_Error (''EACCES: permission denied, open '' @ file))
      else Inr (''PNG'' @ replicate (w_shots w) CHR ''!''))"

definition toy_mkdir :: "string \<Rightarrow> bool \<Rightarrow> toy_world \<Rightarrow> (thrown + unit) \<times> toy_world" where
  "toy_mkdir dir recursive w =
     (if starts_with dir ''/readonly'' then (Inl (new_Error (''EACCES: permission denied, mkdir '' @ dir)), w)
      else (Inr (), w\<lparr>w_dirs := dir # w_dirs w\<rparr>))"

definition toy_base64 :: "string \<Rightarrow> string" where
  "toy_base64 bytes =
     (if bytes = ''PNG!'' then ''UE5HIQ==''
      else if bytes = ''PNG!!'' then ''UE5HISE=''
      else [])"

definition toy_dirname :: "string \<Rightarrow> string" where
  "toy_dirname file = rev (drop 1 (dropWhile (\<lambda>c. c \<noteq> CHR ''/'') (rev file)))"

definition toy_os :: "toy_world os" where
  "toy_os =
     \<lparr>execAsync = toy_exec,
      existsSync = (\<lambda>dir w. dir \<in> set (w_dirs w)),
      mkdirSync = toy_mkdir,
      readFileSync = toy_read,
      Date_now = w_clock,
      path_join = join ''/'',
      path_dirname = toy_dirname,
      path_resolve = (\<lambda>file. file),
      toString_base64 = toy_base64,
      env_SCREENSHOT_RESOURCE_DIR = None,
      env_HOME = Some ''/Users/u''\<rparr>"

definition toy_world0 :: toy_world where
  "toy_world0 =
     \<lparr>w_clock = 1712, w_dirs = [], w_shots = 0,
      w_listing = ''== Devices ==\<newline>    Apple TV (Booted)\<newline>    iPhone 15 (ABCD-1234-EF) (Booted)''\<rparr>"

text \<open>The state of the process after its start in that world.\<close>

definition toy_state0 :: "toy_world state" where
  "toy_state0 =
     \<lparr>screenshots = [],
      resources = [(''screenshot://list'', ''screenshot-list'', ListCallback)],
      world = toy_world0\<lparr>w_dirs := [''/Users/u/Downloads/ios-simulator-screenshots'']\<rparr>,
      calls = [Mkdir ''/Users/u/Downloads/ios-simulator-screenshots'' True]\<rparr>"

section \<open>Properties\<close>

subsection \<open>Auxiliary facts\<close>

lemma split_not_Nil [simp]: "split sep s \<noteq> []"
  by (induction s) (auto split: list.splits)

lemma hd_split: "hd (split sep s) = takeWhile (\<lambda>c. c \<noteq> sep) s"
  by (induction s) (auto split: list.splits)

lemma well_formed_scan_lines: "well_formed (scan_lines ls)"
  by (induction ls) (auto split: option.splits)

lemma try_catch_returns:
  "try_catch m (\<lambda>e. ret (h e)) s =
     (case m s of (Inl e, s') \<Rightarrow> (Inr (h e), s') | (Inr a, s') \<Rightarrow> (Inr a, s'))"
  by (simp add: try_catch_def ret_def split: prod.splits sum.splits)

lemma bind_ret:
  "bind m (\<lambda>a. ret (f a)) s =
     (case m s of (Inl e, s') \<Rightarrow> (Inl e, s') | (Inr a, s') \<Rightarrow> (Inr (f a), s'))"
  by (simp add: bind_def ret_def split: prod.splits sum.splits)

lemmas action_defs = bind_def ret_def try_catch_def do_exec_def do_mkdir_def do_read_def
  ensure_directory_def server_resource_def registerScreenshotResource_def

lemmas tool_defs = get_booted_sim_id_def get_booted_sim_id_try_def get_all_simulators_def
  get_all_simulators_try_def take_screenshot_def take_screenshot_try_def boot_simulator_def
  boot_simulator_try_def delete_screenshot_def delete_screenshot_try_def
  screenshotName_def actualPath_def screenshot_command_def SCREENSHOT_RESOURCE_DIR_def

lemmas toy_defs = toy_os_def toy_exec_def toy_read_def toy_mkdir_def toy_base64_def toy_dirname_def
  toy_world0_def toy_state0_def

lemma Map_get_delete: "Map_get k (Map_delete name m) = (if k = name then None else Map_get k m)"
  by (simp add: Map_get_def Map_delete_def delete_conv')

lemma Map_has_get: "Map_has k m = (Map_get k m \<noteq> None)"
  by (simp add: Map_has_def Map_get_def map_of_eq_None_iff)

lemma Map_has_set: "Map_has n (Map_set name data m) = (n = name \<or> Map_has n m)"
  by (auto simp: Map_has_def Map_set_def dom_update)

lemma Map_has_delete: "Map_has n (Map_delete name m) = (n \<noteq> name \<and> Map_has n m)"
  by (simp add: Map_has_get Map_get_delete)

lemma Map_get_set: "Map_get k (Map_set name data m) = (if k = name then Some data else Map_get k m)"
  by (simp add: Map_get_def Map_set_def update_conv')

lemma toy_start: "startup toy_os toy_world0 = (Inr (), toy_state0)"
  by (simp add: startup_def bind_def ret_def do_mkdir_def server_resource_def
      SCREENSHOT_RESOURCE_DIR_def or_else_def toy_os_def toy_mkdir_def toy_world0_def toy_state0_def)

lemma toy_stamp: "decimal 1712 = ''1712''"
  by code_simp

subsection \<open>The scan for the booted device\<close>

text \<open>The pattern at one position, and in a line.\<close>

lemma starts_with_paren: "starts_with s '')'' = (\<exists>rest. s = CHR '')'' # rest)"
  by (cases s) auto

lemma not_id_char_paren [simp]: "\<not> id_char CHR '')''"
  by (simp add: id_char_def)

lemma match_here_iff:
  "match_here s = Some d \<longleftrightarrow>
     (\<exists>rest. s = ''('' @ d @ '')'' @ rest) \<and> d \<noteq> [] \<and> list_all id_char d"
proof
  assume m: "match_here s = Some d"
  then obtain cs where s: "s = CHR ''('' # cs"
    by (cases s) (auto simp: match_here.simps split: if_splits)
  from m s have d: "d = takeWhile id_char cs" "d \<noteq> []"
    and "starts_with (dropWhile id_char cs) '')''"
    by (auto simp: match_here.simps Let_def split: if_splits)
  then obtain rest where "dropWhile id_char cs = CHR '')'' # rest"
    by (auto simp: starts_with_paren)
  then have "cs = d @ CHR '')'' # rest"
    using d(1) takeWhile_dropWhile_id [of id_char cs] by simp
  moreover have "list_all id_char d"
    using d(1) by (simp add: list_all_iff) (meson set_takeWhileD)
  ultimately show "(\<exists>rest. s = ''('' @ d @ '')'' @ rest) \<and> d \<noteq> [] \<and> list_all id_char d"
    using s d(2) by auto
next
  assume "(\<exists>rest. s = ''('' @ d @ '')'' @ rest) \<and> d \<noteq> [] \<and> list_all id_char d"
  then obtain rest where s: "s = CHR ''('' # d @ CHR '')'' # rest" and d: "d \<noteq> []" "list_all id_char d"
    by auto
  have "takeWhile id_char (d @ CHR '')'' # rest) = d"
    using d(2) by (simp add: list_all_iff takeWhile_append2)
  moreover have "dropWhile id_char (d @ CHR '')'' # rest) = CHR '')'' # rest"
    using d(2) by (simp add: list_all_iff dropWhile_append2)
  ultimately show "match_here s = Some d"
    using s d(1) by (simp add: match_here.simps Let_def)
qed

declare match_here.simps [simp del]

text \<open>
  The result of the match is a parenthesised run of class characters of the line, and
  no such run starts further to the left.
\<close>

lemma match_uuid_Some:
  assumes "match_uuid s = Some d"
  shows "\<exists>before rest. s = before @ ''('' @ d @ '')'' @ rest \<and> d \<noteq> [] \<and> list_all id_char d
           \<and> (\<forall>before' d' rest'. s = before' @ ''('' @ d' @ '')'' @ rest' \<and> d' \<noteq> [] \<and> list_all id_char d'
                 \<longrightarrow> length before \<le> length before')"
  using assms
proof (induction s)
  case Nil
  then show ?case by simp
next
  case (Cons c cs)
  show ?case
  proof (cases "match_here (c # cs)")
    case (Some run)
    with Cons.prems have "run = d" by simp
    with Some obtain rest where "c # cs = [] @ ''('' @ d @ '')'' @ rest" "d \<noteq> []" "list_all id_char d"
      by (auto simp: match_here_iff)
    then show ?thesis
      by (intro exI [of _ "[]"] exI [of _ rest]) simp
  next
    case None
    with Cons.prems have "match_uuid cs = Some d" by simp
    from Cons.IH [OF this] obtain before rest where
      cs: "cs = before @ ''('' @ d @ '')'' @ rest" and d: "d \<noteq> []" "list_all id_char d"
      and left: "\<And>before' d' rest'. cs = before' @ ''('' @ d' @ '')'' @ rest' \<Longrightarrow> d' \<noteq> [] \<Longrightarrow>
                   list_all id_char d' \<Longrightarrow> length before \<le> length before'"
      by blast
    have "length (c # before) \<le> length before'"
      if "c # cs = before' @ ''('' @ d' @ '')'' @ rest'" "d' \<noteq> []" "list_all id_char d'"
      for before' d' rest'
    proof (cases before')
      case Nil
      with that have "match_here (c # cs) = Some d'"
        by (simp add: match_here_iff)
      with None show ?thesis by simp
    next
      case (Cons b bs)
      with that have "cs = bs @ ''('' @ d' @ '')'' @ rest'" by simp
      from left [OF this that(2,3)] Cons show ?thesis by simp
    qed
    then show ?thesis
      using cs d by (intro exI [of _ "c # before"] exI [of _ rest]) auto
  qed
qed

lemma match_uuid_None:
  "match_uuid s = None \<longleftrightarrow>
     \<not> (\<exists>before d rest. s = before @ ''('' @ d @ '')'' @ rest \<and> d \<noteq> [] \<and> list_all id_char d)"
proof
  assume "match_uuid s = None"
  then show "\<not> (\<exists>before d rest. s = before @ ''('' @ d @ '')'' @ rest \<and> d \<noteq> [] \<and> list_all id_char d)"
  proof (induction s)
    case Nil
    then show ?case by simp
  next
    case (Cons c cs)
    then have here: "match_here (c # cs) = None" and there: "match_uuid cs = None"
      by (auto split: option.splits)
    show ?case
    proof
      assume "\<exists>before d rest. c # cs = before @ ''('' @ d @ '')'' @ rest \<and> d \<noteq> [] \<and> list_all id_char d"
      then obtain before d rest where
        eq: "c # cs = before @ ''('' @ d @ '')'' @ rest" and d: "d \<noteq> []" "list_all id_char d"
        by blast
      show False
      proof (cases before)
        case Nil
        with eq d have "match_here (c # cs) = Some d" by (simp add: match_here_iff)
        with here show False by simp
      next
        case (Cons b bs)
        with eq have "cs = bs @ ''('' @ d @ '')'' @ rest" by simp
        with d Cons.IH [OF there] show False by blast
      qed
    qed
  qed
next
  assume no: "\<not> (\<exists>before d rest. s = before @ ''('' @ d @ '')'' @ rest \<and> d \<noteq> [] \<and> list_all id_char d)"
  show "match_uuid s = None"
  proof (cases "match_uuid s")
    case (Some d)
    from match_uuid_Some [OF this] no show ?thesis by blast
  qed simp
qed

lemma id_run_unique:
  assumes "d @ CHR '')'' # rest = d' @ CHR '')'' # rest'"
    and "list_all id_char d" and "list_all id_char d'"
  shows "d = d'"
proof -
  have "takeWhile id_char (d @ CHR '')'' # rest) = d"
    using assms(2) by (simp add: list_all_iff takeWhile_append2)
  moreover have "takeWhile id_char (d' @ CHR '')'' # rest') = d'"
    using assms(3) by (simp add: list_all_iff takeWhile_append2)
  ultimately show ?thesis using assms(1) by simp
qed

text \<open>Conversely, the leftmost parenthesised run of class characters is the result of the match.\<close>

lemma match_uuid_leftmost:
  assumes line: "s = before @ ''('' @ d @ '')'' @ rest" and d: "d \<noteq> []" "list_all id_char d"
    and left: "\<And>before' d' rest'. s = before' @ ''('' @ d' @ '')'' @ rest' \<Longrightarrow> d' \<noteq> [] \<Longrightarrow>
                 list_all id_char d' \<Longrightarrow> length before \<le> length before'"
  shows "match_uuid s = Some d"
proof -
  have "match_uuid s \<noteq> None"
    using line d by (auto simp: match_uuid_None)
  then obtain d2 where m: "match_uuid s = Some d2" by auto
  from match_uuid_Some [OF m] obtain before2 rest2 where
    line2: "s = before2 @ ''('' @ d2 @ '')'' @ rest2" and d2: "d2 \<noteq> []" "list_all id_char d2"
    and left2: "\<And>before' d' rest'. s = before' @ ''('' @ d' @ '')'' @ rest' \<Longrightarrow> d' \<noteq> [] \<Longrightarrow>
                 list_all id_char d' \<Longrightarrow> length before2 \<le> length before'"
    by blast
  have "length before = length before2"
    using left [OF line2 d2] left2 [OF line d] by simp
  with line line2 have "before = before2" and "d @ CHR '')'' # rest = d2 @ CHR '')'' # rest2"
    by auto
  with d(2) d2(2) have "d = d2" by (auto dest: id_run_unique)
  with m show ?thesis by simp
qed

text \<open>Where the first parenthesis group of a line is a run of class characters, the match is that group.\<close>

lemma match_uuid_first_group:
  assumes "first_paren_group line = Some d" and "d \<noteq> []" and "list_all id_char d"
  shows "match_uuid line = Some d"
proof -
  have "match_uuid (before @ CHR ''('' # d @ CHR '')'' # rest) = Some d"
    if "CHR ''('' \<notin> set before" for before rest
    using that
  proof (induction before)
    case Nil
    have "match_here (CHR ''('' # d @ CHR '')'' # rest) = Some d"
      using assms(2,3) by (simp add: match_here_iff)
    then show ?case by simp
  next
    case (Cons b bs)
    then have "b \<noteq> CHR ''(''" by auto
    then have "match_here (b # bs @ CHR ''('' # d @ CHR '')'' # rest) = None"
      by (simp add: match_here.simps)
    with Cons show ?case by simp
  qed
  note prefix_case = this
  let ?open = "\<lambda>c. c \<noteq> CHR ''(''" and ?close = "\<lambda>c. c \<noteq> CHR '')''"
  obtain c rest where drop: "dropWhile ?open line = c # rest"
    and close: "CHR '')'' \<in> set rest" and d: "d = takeWhile ?close rest"
    using assms(1)
    by (cases "dropWhile ?open line") (auto simp: first_paren_group_def split: if_splits)
  have c: "c = CHR ''(''"
    using hd_dropWhile [of ?open line] drop by simp
  have "dropWhile ?close rest \<noteq> []"
    using close by (simp add: dropWhile_eq_Nil_conv)
  moreover have "hd (dropWhile ?close rest) = CHR '')''"
    using hd_dropWhile [of ?close rest] calculation by simp
  ultimately obtain rest' where tail: "dropWhile ?close rest = CHR '')'' # rest'"
    by (cases "dropWhile ?close rest") auto
  have "rest = d @ CHR '')'' # rest'"
    using takeWhile_dropWhile_id [of ?close rest] d tail by simp
  then have "line = takeWhile ?open line @ CHR ''('' # d @ CHR '')'' # rest'"
    using takeWhile_dropWhile_id [of ?open line] drop c by simp
  moreover have "CHR ''('' \<notin> set (takeWhile ?open line)"
    using set_takeWhileD [of "CHR ''(''" ?open line] by blast
  ultimately show ?thesis
    using prefix_case [of "takeWhile ?open line" rest'] by simp
qed

lemma scan_lines_skip:
  "(\<forall>l\<in>set before. includes_str l ''Booted'' \<longrightarrow> match_uuid l = None) \<Longrightarrow>
   scan_lines (before @ rest) = scan_lines rest"
  by (induction before) auto

lemmas scan_defs = match_here.simps is_space_def trim_def id_char_def

text \<open>
  C3, as the module has it. \<^verbatim>\<open>get_booted_sim_id\<close> goes through the lines of the
  listing in order. The first line that contains \<^verbatim>\<open>Booted\<close> and in which the pattern
  matches gives the response \<^verbatim>\<open>Booted Simulator: <name>\<close>, a line feed and
  \<^verbatim>\<open>UUID: <id>\<close>: the id is the leftmost parenthesised non-empty run of digits,
  upper-case letters A to F and hyphens of the line, which need not be its first
  parenthesis group, and the name is the text before the first opening parenthesis of
  the line, trimmed. A line with \<^verbatim>\<open>Booted\<close> in which the pattern does not match is
  passed over. When no line gives a match the response is the text
  \<^verbatim>\<open>No booted simulator found.\<close>, returned like any other response.
\<close>

theorem get_booted_sim_id_first_match:
  assumes "execAsync os ''xcrun simctl list devices'' (world s) = (Inr stdout, w)"
  shows "(\<forall>before line after d.
            split CHR ''\<newline>'' stdout = before @ line # after
            \<and> (\<forall>l\<in>set before. includes_str l ''Booted'' \<longrightarrow> match_uuid l = None)
            \<and> includes_str line ''Booted'' \<and> match_uuid line = Some d
            \<longrightarrow> fst (get_booted_sim_id os s)
                  = Inr [Text (''Booted Simulator: '' @ trim (takeWhile (\<lambda>c. c \<noteq> CHR ''('') line)
                               @ ''\<newline>UUID: '' @ d)])
       \<and> ((\<forall>l\<in>set (split CHR ''\<newline>'' stdout). includes_str l ''Booted'' \<longrightarrow> match_uuid l = None)
            \<longrightarrow> fst (get_booted_sim_id os s) = Inr [Text ''No booted simulator found.''])"
proof -
  have run: "fst (get_booted_sim_id os s) = Inr (scan_lines (split CHR ''\<newline>'' stdout))"
    using assms
    by (simp add: get_booted_sim_id_def get_booted_sim_id_try_def try_catch_returns bind_ret do_exec_def)
  have none: "scan_lines ls = [Text ''No booted simulator found.'']"
    if "\<forall>l\<in>set ls. includes_str l ''Booted'' \<longrightarrow> match_uuid l = None" for ls
    using scan_lines_skip [of ls "[]"] that by simp
  show ?thesis
    using run none by (auto simp: scan_lines_skip hd_split)
qed

theorem get_booted_sim_id_first_match_witness:
  "execAsync toy_os ''xcrun simctl list devices'' (world toy_state0)
     = (Inr ''== Devices ==\<newline>    Apple TV (Booted)\<newline>    iPhone 15 (ABCD-1234-EF) (Booted)'',
        world toy_state0)
   \<and> split CHR ''\<newline>'' ''== Devices ==\<newline>    Apple TV (Booted)\<newline>    iPhone 15 (ABCD-1234-EF) (Booted)''
     = [''== Devices =='', ''    Apple TV (Booted)''] @ ''    iPhone 15 (ABCD-1234-EF) (Booted)'' # []
   \<and> \<not> includes_str ''== Devices =='' ''Booted''
   \<and> includes_str ''    Apple TV (Booted)'' ''Booted''
   \<and> match_uuid ''    Apple TV (Booted)'' = None
   \<and> includes_str ''    iPhone 15 (ABCD-1234-EF) (Booted)'' ''Booted''
   \<and> match_uuid ''    iPhone 15 (ABCD-1234-EF) (Booted)'' = Some ''ABCD-1234-EF''
   \<and> fst (get_booted_sim_id toy_os toy_state0)
     = Inr [Text ''Booted Simulator: iPhone 15\<newline>UUID: ABCD-1234-EF'']
   \<and> execAsync toy_os ''xcrun simctl list devices''
        (world (toy_state0\<lparr>world := (world toy_state0)\<lparr>w_listing := ''== Devices ==\<newline>    Apple TV (Booted)''\<rparr>\<rparr>))
     = (Inr ''== Devices ==\<newline>    Apple TV (Booted)'',
        (world toy_state0)\<lparr>w_listing := ''== Devices ==\<newline>    Apple TV (Booted)''\<rparr>)
   \<and> fst (get_booted_sim_id toy_os
        (toy_state0\<lparr>world := (world toy_state0)\<lparr>w_listing := ''== Devices ==\<newline>    Apple TV (Booted)''\<rparr>\<rparr>))
     = Inr [Text ''No booted simulator found.'']"
proof -
  let ?line = "''    iPhone 15 (ABCD-1234-EF) (Booted)''"
  let ?quiet = "toy_state0\<lparr>world := (world toy_state0)\<lparr>w_listing := ''== Devices ==\<newline>    Apple TV (Booted)''\<rparr>\<rparr>"
  have exec: "execAsync toy_os ''xcrun simctl list devices'' (world toy_state0)
     = (Inr ''== Devices ==\<newline>    Apple TV (Booted)\<newline>    iPhone 15 (ABCD-1234-EF) (Booted)'',
        world toy_state0)"
    by (simp add: toy_defs)
  have lines: "split CHR ''\<newline>'' ''== Devices ==\<newline>    Apple TV (Booted)\<newline>    iPhone 15 (ABCD-1234-EF) (Booted)''
     = [''== Devices =='', ''    Apple TV (Booted)''] @ ?line # []"
    by simp
  have tv: "includes_str ''    Apple TV (Booted)'' ''Booted''" "match_uuid ''    Apple TV (Booted)'' = None"
    by (simp_all add: scan_defs)
  have skip: "\<forall>l\<in>set [''== Devices =='', ''    Apple TV (Booted)'']. includes_str l ''Booted'' \<longrightarrow> match_uuid l = None"
    using tv by simp
  have booted: "includes_str ?line ''Booted''"
    by simp
  have id: "match_uuid ?line = Some ''ABCD-1234-EF''"
    by (simp add: scan_defs)
  have name: "trim (takeWhile (\<lambda>c. c \<noteq> CHR ''('') ?line) = ''iPhone 15''"
    by (simp add: scan_defs)
  from get_booted_sim_id_first_match [OF exec] lines skip booted id
  have "fst (get_booted_sim_id toy_os toy_state0)
     = Inr [Text (''Booted Simulator: '' @ trim (takeWhile (\<lambda>c. c \<noteq> CHR ''('') ?line)
                  @ ''\<newline>UUID: '' @ ''ABCD-1234-EF'')]"
    by blast
  then have found: "fst (get_booted_sim_id toy_os toy_state0)
     = Inr [Text ''Booted Simulator: iPhone 15\<newline>UUID: ABCD-1234-EF'']"
    using name by simp
  have exec': "execAsync toy_os ''xcrun simctl list devices'' (world ?quiet)
     = (Inr ''== Devices ==\<newline>    Apple TV (Booted)'',
        (world toy_state0)\<lparr>w_listing := ''== Devices ==\<newline>    Apple TV (Booted)''\<rparr>)"
    by (simp add: toy_defs)
  have none: "\<forall>l\<in>set (split CHR ''\<newline>'' ''== Devices ==\<newline>    Apple TV (Booted)'').
      includes_str l ''Booted'' \<longrightarrow> match_uuid l = None"
    using tv by simp
  from get_booted_sim_id_first_match [OF exec'] none
  have quiet: "fst (get_booted_sim_id toy_os ?quiet) = Inr [Text ''No booted simulator found.'']"
    by blast
  from exec lines tv booted id found exec' quiet show ?thesis
    by simp
qed

text \<open>
  The claim as it is worded fails on a listing with two booted devices, the first with
  a parenthesis in its name. The first parenthesis group of the first line is not a run
  of class characters; the second line is the first one whose first parenthesis group
  is. The response nevertheless names the device and the id of the first line.
\<close>

theorem first_group_is_not_what_is_matched:
  "split CHR ''\<newline>'' ''iPad Pro (12.9-inch) (AB-12) (Booted)\<newline>iPhone 15 (CD-34) (Booted)''
     = [''iPad Pro (12.9-inch) (AB-12) (Booted)'', ''iPhone 15 (CD-34) (Booted)'']
   \<and> first_paren_group ''iPad Pro (12.9-inch) (AB-12) (Booted)'' = Some ''12.9-inch''
   \<and> \<not> list_all id_char ''12.9-inch''
   \<and> includes_str ''iPhone 15 (CD-34) (Booted)'' ''Booted''
   \<and> first_paren_group ''iPhone 15 (CD-34) (Booted)'' = Some ''CD-34''
   \<and> list_all id_char ''CD-34''
   \<and> fst (get_booted_sim_id toy_os
        (toy_state0\<lparr>world := (world toy_state0)
           \<lparr>w_listing := ''iPad Pro (12.9-inch) (AB-12) (Booted)\<newline>iPhone 15 (CD-34) (Booted)''\<rparr>\<rparr>))
     = Inr [Text ''Booted Simulator: iPad Pro\<newline>UUID: AB-12'']"
  by (simp add: get_booted_sim_id_def get_booted_sim_id_try_def try_catch_returns bind_ret do_exec_def
      toy_defs first_paren_group_def scan_defs)

subsection \<open>Every handler answers\<close>

text \<open>What a handler answers when its \<^verbatim>\<open>try\<close> block throws: one text item, nothing else.\<close>

lemma handlers_catch:
  "get_booted_sim_id_try os s = (Inl e, s') \<Longrightarrow>
     get_booted_sim_id os s = (Inr [Text (''Error: '' @ message_or_string e)], s')"
  "get_all_simulators_try os s = (Inl e, s') \<Longrightarrow>
     get_all_simulators os s = (Inr [Text (''Error: '' @ message_or_string e)], s')"
  "take_screenshot_try os deviceId name outputPath s = (Inl e, s') \<Longrightarrow>
     take_screenshot os deviceId name outputPath s
       = (Inr [Text (''Error taking screenshot: '' @ message_or_string e)], s')"
  "boot_simulator_try os deviceId s = (Inl e, s') \<Longrightarrow>
     boot_simulator os deviceId s = (Inr [Text (''Error booting simulator: '' @ message_or_string e)], s')"
  "delete_screenshot_try name' s = (Inl e, s') \<Longrightarrow>
     delete_screenshot name' s = (Inr [Text (''Error deleting screenshot: '' @ message_or_string e)], s')"
  by (simp_all add: get_booted_sim_id_def get_all_simulators_def take_screenshot_def boot_simulator_def
      delete_screenshot_def try_catch_def ret_def)

text \<open>
  C5. Whatever the operating system does (every \<open>os\<close>, every world), whatever the tool
  and its arguments, and in every state, the handler returns a response and throws
  nothing: the result is on the right of the sum, never a thrown value on the left. The
  response is well formed: it starts with a text item.
\<close>

theorem tool_call_always_responds:
  "\<exists>r s'. call_tool os c s = (Inr r, s') \<and> well_formed r"
proof (cases c)
  case GetBootedSimId
  then show ?thesis
    by (simp add: get_booted_sim_id_def get_booted_sim_id_try_def try_catch_returns bind_ret
        well_formed_scan_lines split: prod.splits sum.splits)
next
  case GetAllSimulators
  then show ?thesis
    by (simp add: get_all_simulators_def get_all_simulators_try_def try_catch_returns bind_ret
        split: prod.splits sum.splits)
next
  case (TakeScreenshot d n p)
  then show ?thesis
    by (simp add: take_screenshot_def take_screenshot_try_def try_catch_returns bind_def ret_def
        Let_def split: prod.splits sum.splits)
next
  case (BootSimulator d)
  then show ?thesis
    by (simp add: boot_simulator_def boot_simulator_try_def try_catch_returns bind_ret
        split: prod.splits sum.splits)
next
  case (DeleteScreenshot n)
  then show ?thesis
    by (simp add: delete_screenshot_def delete_screenshot_try_def try_catch_returns ret_def)
qed

subsection \<open>The commands handed to the shell\<close>

text \<open>
  C9. For every string \<open>deviceId\<close>, \<^verbatim>\<open>boot_simulator\<close> hands to \<^verbatim>\<open>execAsync\<close>
  exactly the command \<^verbatim>\<open>xcrun simctl boot\<close> followed by a space and the string as it
  was given: the world afterwards is the one that call leaves, the response carries its
  output or its failure, and it is the only call made. Once the directory of the output
  file is there, \<^verbatim>\<open>take_screenshot\<close> hands to \<^verbatim>\<open>execAsync\<close> exactly the command
  \<^verbatim>\<open>xcrun simctl io <deviceId> screenshot "<path>"\<close> with the device id and the path
  as they are: the world afterwards is the one that call leaves, its failure is the
  error answered, and after its success the file is read back in the world it left. A
  non-empty \<open>outputPath\<close> is that path. When the directory cannot be created no command
  is run. Nothing is checked, quoted or escaped on the way.
\<close>

theorem commands_interpolate_verbatim:
  fixes os :: "'w os" and s :: "'w state" and deviceId :: string and name outputPath :: "string option"
  defines "boot \<equiv> ''xcrun simctl boot '' @ deviceId"
  defines "path \<equiv> actualPath os name outputPath (world s)"
  defines "shot \<equiv> ''xcrun simctl io '' @ deviceId @ '' screenshot '' @ [CHR 0x22] @ path @ [CHR 0x22]"
  shows
  "boot_simulator os deviceId s =
     (case execAsync os boot (world s) of
        (Inl e, w) \<Rightarrow>
          (Inr [Text (''Error booting simulator: '' @ message_or_string e)],
           s\<lparr>world := w, calls := calls s @ [Exec boot]\<rparr>)
      | (Inr stdout, w) \<Rightarrow>
          (Inr [Text (''Successfully booted simulator with ID: '' @ deviceId @ ''\<newline>'' @ stdout)],
           s\<lparr>world := w, calls := calls s @ [Exec boot]\<rparr>))
   \<and> calls (snd (boot_simulator os deviceId s)) = calls s @ [Exec boot]
   \<and> (ensure_directory os (path_dirname os path) s = (Inr (), t) \<longrightarrow>
        world (snd (take_screenshot os deviceId name outputPath s)) = snd (execAsync os shot (world t))
        \<and> calls (snd (take_screenshot os deviceId name outputPath s)) = calls t @ [Exec shot]
        \<and> (\<forall>e. fst (execAsync os shot (world t)) = Inl e \<longrightarrow>
              fst (take_screenshot os deviceId name outputPath s)
                = Inr [Text (''Error taking screenshot: '' @ message_or_string e)])
        \<and> (\<forall>out bytes.
              fst (execAsync os shot (world t)) = Inr out
              \<and> readFileSync os path (snd (execAsync os shot (world t))) = Inr bytes
              \<and> ''screenshot://'' @ screenshotName os name (world s) \<notin> set (map fst (resources s)) \<longrightarrow>
              fst (take_screenshot os deviceId name outputPath s)
                = Inr [Text (''Screenshot saved to: '' @ path_resolve os path
                             @ ''\<newline>Accessible as resource: screenshot://''
                             @ screenshotName os name (world s)),
                       Image (toString_base64 os bytes) ''image/png'']))
   \<and> (ensure_directory os (path_dirname os path) s = (Inl e, t) \<longrightarrow>
        snd (take_screenshot os deviceId name outputPath s) = t
        \<and> calls (snd (take_screenshot os deviceId name outputPath s)) = calls t)
   \<and> (outputPath = Some file \<and> file \<noteq> [] \<longrightarrow> path = file)"
proof -
  have boot_eq: "boot_simulator os deviceId s =
     (case execAsync os boot (world s) of
        (Inl e, w) \<Rightarrow>
          (Inr [Text (''Error booting simulator: '' @ message_or_string e)],
           s\<lparr>world := w, calls := calls s @ [Exec boot]\<rparr>)
      | (Inr stdout, w) \<Rightarrow>
          (Inr [Text (''Successfully booted simulator with ID: '' @ deviceId @ ''\<newline>'' @ stdout)],
           s\<lparr>world := w, calls := calls s @ [Exec boot]\<rparr>))"
    by (simp add: boot_def boot_simulator_def boot_simulator_try_def try_catch_returns bind_ret do_exec_def
        split: prod.splits sum.splits)
  have boot_calls: "calls (snd (boot_simulator os deviceId s)) = calls s @ [Exec boot]"
    by (simp add: boot_eq split: prod.splits sum.splits)
  have shot_eq: "shot = screenshot_command deviceId path"
    by (simp add: shot_def screenshot_command_def)
  have made: "world (snd (take_screenshot os deviceId name outputPath s)) = snd (execAsync os shot (world t))
        \<and> calls (snd (take_screenshot os deviceId name outputPath s)) = calls t @ [Exec shot]
        \<and> (\<forall>e. fst (execAsync os shot (world t)) = Inl e \<longrightarrow>
              fst (take_screenshot os deviceId name outputPath s)
                = Inr [Text (''Error taking screenshot: '' @ message_or_string e)])
        \<and> (\<forall>out bytes.
              fst (execAsync os shot (world t)) = Inr out
              \<and> readFileSync os path (snd (execAsync os shot (world t))) = Inr bytes
              \<and> ''screenshot://'' @ screenshotName os name (world s) \<notin> set (map fst (resources s)) \<longrightarrow>
              fst (take_screenshot os deviceId name outputPath s)
                = Inr [Text (''Screenshot saved to: '' @ path_resolve os path
                             @ ''\<newline>Accessible as resource: screenshot://''
                             @ screenshotName os name (world s)),
                       Image (toString_base64 os bytes) ''image/png''])"
    if ens: "ensure_directory os (path_dirname os path) s = (Inr (), t)"
  proof -
    have res: "resources t = resources s"
      using ens by (auto simp: ensure_directory_def do_mkdir_def ret_def split: if_splits prod.splits)
    show ?thesis
      using ens res
      by (simp add: shot_eq path_def take_screenshot_def take_screenshot_try_def try_catch_returns
          bind_def ret_def do_exec_def do_read_def registerScreenshotResource_def server_resource_def
          Let_def split: prod.splits sum.splits)
  qed
  have unmade: "snd (take_screenshot os deviceId name outputPath s) = t
        \<and> calls (snd (take_screenshot os deviceId name outputPath s)) = calls t"
    if "ensure_directory os (path_dirname os path) s = (Inl e, t)"
    using that
    by (simp add: path_def take_screenshot_def take_screenshot_try_def try_catch_returns bind_def Let_def)
  have given: "outputPath = Some file \<and> file \<noteq> [] \<longrightarrow> path = file"
    by (simp add: path_def actualPath_def or_else_def)
  show ?thesis
    using boot_eq boot_calls made unmade given by blast
qed

theorem commands_interpolate_verbatim_witness:
  "boot_simulator toy_os ''X; echo hi'' toy_state0
     = (Inr [Text ''Successfully booted simulator with ID: X; echo hi\<newline>''],
        toy_state0\<lparr>calls := calls toy_state0 @ [Exec ''xcrun simctl boot X; echo hi'']\<rparr>)
   \<and> ensure_directory toy_os ''/tmp/x'' toy_state0
     = (Inr (), toy_state0\<lparr>world := (world toy_state0)\<lparr>w_dirs := ''/tmp/x'' # w_dirs (world toy_state0)\<rparr>,
                           calls := calls toy_state0 @ [Mkdir ''/tmp/x'' True]\<rparr>)
   \<and> execAsync toy_os (''xcrun simctl io X; echo hi screenshot '' @ [CHR 0x22] @ ''/tmp/x/y.png'' @ [CHR 0x22])
        ((world toy_state0)\<lparr>w_dirs := ''/tmp/x'' # w_dirs (world toy_state0)\<rparr>)
     = (Inr [], (world toy_state0)\<lparr>w_dirs := ''/tmp/x'' # w_dirs (world toy_state0), w_shots := 1\<rparr>)
   \<and> world (snd (take_screenshot toy_os ''X; echo hi'' None (Some ''/tmp/x/y.png'') toy_state0))
     = (world toy_state0)\<lparr>w_dirs := ''/tmp/x'' # w_dirs (world toy_state0), w_shots := 1\<rparr>
   \<and> calls (snd (take_screenshot toy_os ''X; echo hi'' None (Some ''/tmp/x/y.png'') toy_state0))
     = calls toy_state0 @ [Mkdir ''/tmp/x'' True,
         Exec (''xcrun simctl io X; echo hi screenshot '' @ [CHR 0x22] @ ''/tmp/x/y.png'' @ [CHR 0x22])]
   \<and> fst (take_screenshot toy_os ''X; echo hi'' None (Some ''/tmp/x/y.png'') toy_state0)
     = Inr [Text ''Screenshot saved to: /tmp/x/y.png\<newline>Accessible as resource: screenshot://screenshot-1712'',
            Image ''UE5HIQ=='' ''image/png'']
   \<and> fst (execAsync toy_os (''xcrun simctl io NOPE screenshot '' @ [CHR 0x22] @ ''/tmp/x/y.png'' @ [CHR 0x22])
        ((world toy_state0)\<lparr>w_dirs := ''/tmp/x'' # w_dirs (world toy_state0)\<rparr>))
     = Inl (new_Error (''Command failed: xcrun simctl io NOPE screenshot '' @ [CHR 0x22] @ ''/tmp/x/y.png'' @ [CHR 0x22]))
   \<and> fst (take_screenshot toy_os ''NOPE'' None (Some ''/tmp/x/y.png'') toy_state0)
     = Inr [Text (''Error taking screenshot: Command failed: xcrun simctl io NOPE screenshot ''
                  @ [CHR 0x22] @ ''/tmp/x/y.png'' @ [CHR 0x22])]
   \<and> ensure_directory toy_os ''/readonly/x'' toy_state0
     = (Inl (new_Error ''EACCES: permission denied, mkdir /readonly/x''),
        toy_state0\<lparr>calls := calls toy_state0 @ [Mkdir ''/readonly/x'' True]\<rparr>)
   \<and> calls (snd (take_screenshot toy_os ''X; echo hi'' None (Some ''/readonly/x/y.png'') toy_state0))
     = calls toy_state0 @ [Mkdir ''/readonly/x'' True]"
proof -
  let ?w1 = "(world toy_state0)\<lparr>w_dirs := ''/tmp/x'' # w_dirs (world toy_state0)\<rparr>"
  let ?t = "toy_state0\<lparr>world := ?w1, calls := calls toy_state0 @ [Mkdir ''/tmp/x'' True]\<rparr>"
  let ?shot = "''xcrun simctl io X; echo hi screenshot '' @ [CHR 0x22] @ ''/tmp/x/y.png'' @ [CHR 0x22]"
  let ?nope = "''xcrun simctl io NOPE screenshot '' @ [CHR 0x22] @ ''/tmp/x/y.png'' @ [CHR 0x22]"
  have path: "actualPath toy_os None (Some ''/tmp/x/y.png'') (world toy_state0) = ''/tmp/x/y.png''"
    "actualPath toy_os None (Some ''/readonly/x/y.png'') (world toy_state0) = ''/readonly/x/y.png''"
    by (simp_all add: actualPath_def or_else_def)
  have dir: "path_dirname toy_os ''/tmp/x/y.png'' = ''/tmp/x''"
    "path_dirname toy_os ''/readonly/x/y.png'' = ''/readonly/x''"
    by (simp_all add: toy_os_def toy_dirname_def)
  have ens: "ensure_directory toy_os ''/tmp/x'' toy_state0 = (Inr (), ?t)"
    by (simp add: ensure_directory_def do_mkdir_def toy_defs)
  have ens': "ensure_directory toy_os ''/readonly/x'' toy_state0
     = (Inl (new_Error ''EACCES: permission denied, mkdir /readonly/x''),
        toy_state0\<lparr>calls := calls toy_state0 @ [Mkdir ''/readonly/x'' True]\<rparr>)"
    by (simp add: ensure_directory_def do_mkdir_def toy_defs)
  have boot: "execAsync toy_os (''xcrun simctl boot '' @ ''X; echo hi'') (world toy_state0) = (Inr [], world toy_state0)"
    by (simp add: toy_defs)
  have exec: "execAsync toy_os ?shot ?w1 = (Inr [], ?w1\<lparr>w_shots := 1\<rparr>)"
    by (simp add: toy_defs)
  have rd: "readFileSync toy_os ''/tmp/x/y.png'' (?w1\<lparr>w_shots := 1\<rparr>) = Inr ''PNG!''"
    by (simp add: toy_defs)
  have shot: "screenshotName toy_os None (world toy_state0) = ''screenshot-1712''"
    by (simp add: screenshotName_def or_else_def toy_defs toy_stamp)
  have "resources toy_state0 = [(''screenshot://list'', ''screenshot-list'', ListCallback)]"
    by (simp add: toy_state0_def)
  then have fresh: "''screenshot://'' @ screenshotName toy_os None (world toy_state0)
      \<notin> set (map fst (resources toy_state0))"
    using shot by simp
  have nope: "fst (execAsync toy_os ?nope ?w1) = Inl (new_Error (''Command failed: '' @ ?nope))"
    by (simp add: toy_defs)
  have msg: "message_or_string (new_Error (''Command failed: '' @ ?nope)) = ''Command failed: '' @ ?nope"
    by (simp add: message_or_string_def new_Error_def)
  have b64: "toString_base64 toy_os ''PNG!'' = ''UE5HIQ=='' " "path_resolve toy_os ''/tmp/x/y.png'' = ''/tmp/x/y.png''"
    by (simp_all add: toy_defs)
  have a: "boot_simulator toy_os ''X; echo hi'' toy_state0
     = (Inr [Text ''Successfully booted simulator with ID: X; echo hi\<newline>''],
        toy_state0\<lparr>calls := calls toy_state0 @ [Exec ''xcrun simctl boot X; echo hi'']\<rparr>)"
    using commands_interpolate_verbatim [where os = toy_os and s = toy_state0 and deviceId = "''X; echo hi''"] boot
    by simp
  have b: "world (snd (take_screenshot toy_os ''X; echo hi'' None (Some ''/tmp/x/y.png'') toy_state0)) = ?w1\<lparr>w_shots := 1\<rparr>
      \<and> calls (snd (take_screenshot toy_os ''X; echo hi'' None (Some ''/tmp/x/y.png'') toy_state0))
          = calls toy_state0 @ [Mkdir ''/tmp/x'' True, Exec ?shot]
      \<and> fst (take_screenshot toy_os ''X; echo hi'' None (Some ''/tmp/x/y.png'') toy_state0)
     = Inr [Text ''Screenshot saved to: /tmp/x/y.png\<newline>Accessible as resource: screenshot://screenshot-1712'',
            Image ''UE5HIQ=='' ''image/png'']"
    using commands_interpolate_verbatim [where os = toy_os and s = toy_state0 and deviceId = "''X; echo hi''" and name = None
        and outputPath = "Some ''/tmp/x/y.png''" and t = ?t]
      path dir ens exec rd fresh shot b64
    by simp
  have c: "fst (take_screenshot toy_os ''NOPE'' None (Some ''/tmp/x/y.png'') toy_state0)
     = Inr [Text (''Error taking screenshot: Command failed: '' @ ?nope)]"
    using commands_interpolate_verbatim [where os = toy_os and s = toy_state0 and deviceId = "''NOPE''" and name = None
        and outputPath = "Some ''/tmp/x/y.png''" and t = ?t]
      path dir ens nope msg
    by simp
  have d: "calls (snd (take_screenshot toy_os ''X; echo hi'' None (Some ''/readonly/x/y.png'') toy_state0))
     = calls toy_state0 @ [Mkdir ''/readonly/x'' True]"
    using commands_interpolate_verbatim [where os = toy_os and s = toy_state0 and deviceId = "''X; echo hi''" and name = None
        and outputPath = "Some ''/readonly/x/y.png''"]
      path dir ens'
    by simp
  from a b c d ens ens' exec nope show ?thesis
    by simp
qed

subsection \<open>Name and path of a capture\<close>





subsection \<open>A failed capture changes nothing\<close>

text \<open>
  C4. \<^verbatim>\<open>take_screenshot\<close> is all or nothing. Let the directory of the output file be
  there or have been created. If the capture command then fails, or if it succeeds and
  reading the file back fails, the response is the single text item
  \<^verbatim>\<open>Error taking screenshot:\<close> followed by the message of the failure, and the map
  of screenshots and the table of resources are exactly what they were before the call;
  so is the list of names, which is read off the map.
\<close>

theorem take_screenshot_all_or_nothing:
  assumes path: "file = actualPath os name outputPath (world s)"
    and ens: "ensure_directory os (path_dirname os file) s = (Inr (), s1)"
    and exec: "do_exec os (screenshot_command deviceId file) s1 = (r1, s2)"
    and fails: "(\<exists>e. r1 = Inl e) \<or> (\<exists>e. readFileSync os file (world s2) = Inl e)"
  shows "\<exists>e. (r1 = Inl e \<or> (\<exists>out. r1 = Inr out \<and> readFileSync os file (world s2) = Inl e))
           \<and> fst (take_screenshot os deviceId name outputPath s)
              = Inr [Text (''Error taking screenshot: '' @ message_or_string e)]
           \<and> screenshots (snd (take_screenshot os deviceId name outputPath s)) = screenshots s
           \<and> resources (snd (take_screenshot os deviceId name outputPath s)) = resources s"
proof -
  have keep1: "screenshots s1 = screenshots s \<and> resources s1 = resources s"
    using ens by (auto simp: ensure_directory_def do_mkdir_def ret_def split: if_splits prod.splits)
  have keep2: "screenshots s2 = screenshots s1 \<and> resources s2 = resources s1"
    using exec by (auto simp: do_exec_def split: prod.splits)
  show ?thesis
  proof (cases r1)
    case (Inl e)
    then show ?thesis
      using path ens exec keep1 keep2
      by (auto simp: take_screenshot_def take_screenshot_try_def try_catch_returns bind_def Let_def)
  next
    case (Inr out)
    with fails obtain e where rd: "readFileSync os file (world s2) = Inl e" by auto
    then show ?thesis
      using Inr path ens exec keep1 keep2
      by (auto simp: take_screenshot_def take_screenshot_try_def try_catch_returns bind_def Let_def
          do_read_def)
  qed
qed

theorem take_screenshot_all_or_nothing_witness:
  "(ensure_directory toy_os ''/Users/u/Downloads/ios-simulator-screenshots'' toy_state0 = (Inr (), toy_state0)
   \<and> fst (do_exec toy_os (screenshot_command ''NOPE'' ''/Users/u/Downloads/ios-simulator-screenshots/a.png'') toy_state0)
       = Inl (new_Error (''Command failed: '' @ screenshot_command ''NOPE'' ''/Users/u/Downloads/ios-simulator-screenshots/a.png''))
   \<and> fst (take_screenshot toy_os ''NOPE'' (Some ''a'') None toy_state0)
       = Inr [Text (''Error taking screenshot: Command failed: ''
                    @ screenshot_command ''NOPE'' ''/Users/u/Downloads/ios-simulator-screenshots/a.png'')]
   \<and> screenshots (snd (take_screenshot toy_os ''NOPE'' (Some ''a'') None toy_state0)) = []
   \<and> resources (snd (take_screenshot toy_os ''NOPE'' (Some ''a'') None toy_state0))
       = [(''screenshot://list'', ''screenshot-list'', ListCallback)])
   \<and> (fst (ensure_directory toy_os ''/locked'' toy_state0) = Inr ()
   \<and> fst (do_exec toy_os (screenshot_command ''D'' ''/locked/a.png'') (snd (ensure_directory toy_os ''/locked'' toy_state0)))
       = Inr []
   \<and> readFileSync toy_os ''/locked/a.png''
        (world (snd (do_exec toy_os (screenshot_command ''D'' ''/locked/a.png'')
                       (snd (ensure_directory toy_os ''/locked'' toy_state0)))))
       = Inl (new_Error ''EACCES: permission denied, open /locked/a.png'')
   \<and> fst (take_screenshot toy_os ''D'' (Some ''a'') (Some ''/locked/a.png'') toy_state0)
       = Inr [Text ''Error taking screenshot: EACCES: permission denied, open /locked/a.png'']
   \<and> screenshots (snd (take_screenshot toy_os ''D'' (Some ''a'') (Some ''/locked/a.png'') toy_state0)) = []
   \<and> resources (snd (take_screenshot toy_os ''D'' (Some ''a'') (Some ''/locked/a.png'') toy_state0))
       = [(''screenshot://list'', ''screenshot-list'', ListCallback)])"
proof (rule conjI)
  show "ensure_directory toy_os ''/Users/u/Downloads/ios-simulator-screenshots'' toy_state0 = (Inr (), toy_state0)
   \<and> fst (do_exec toy_os (screenshot_command ''NOPE'' ''/Users/u/Downloads/ios-simulator-screenshots/a.png'') toy_state0)
       = Inl (new_Error (''Command failed: '' @ screenshot_command ''NOPE'' ''/Users/u/Downloads/ios-simulator-screenshots/a.png''))
   \<and> fst (take_screenshot toy_os ''NOPE'' (Some ''a'') None toy_state0)
       = Inr [Text (''Error taking screenshot: Command failed: ''
                    @ screenshot_command ''NOPE'' ''/Users/u/Downloads/ios-simulator-screenshots/a.png'')]
   \<and> screenshots (snd (take_screenshot toy_os ''NOPE'' (Some ''a'') None toy_state0)) = []
   \<and> resources (snd (take_screenshot toy_os ''NOPE'' (Some ''a'') None toy_state0))
       = [(''screenshot://list'', ''screenshot-list'', ListCallback)]"
  proof -
    let ?file = "''/Users/u/Downloads/ios-simulator-screenshots/a.png''"
    let ?s2 = "snd (do_exec toy_os (screenshot_command ''NOPE'' ?file) toy_state0)"
    have path: "?file = actualPath toy_os (Some ''a'') None (world toy_state0)"
      by (simp add: actualPath_def screenshotName_def SCREENSHOT_RESOURCE_DIR_def or_else_def toy_os_def)
    have dir: "path_dirname toy_os ?file = ''/Users/u/Downloads/ios-simulator-screenshots''"
      by (simp add: toy_os_def toy_dirname_def)
    have ens: "ensure_directory toy_os (path_dirname toy_os ?file) toy_state0 = (Inr (), toy_state0)"
      by (simp add: ensure_directory_def ret_def toy_defs)
    have failed: "fst (do_exec toy_os (screenshot_command ''NOPE'' ?file) toy_state0)
        = Inl (new_Error (''Command failed: '' @ screenshot_command ''NOPE'' ?file))"
      by (simp add: do_exec_def screenshot_command_def toy_os_def toy_exec_def)
    then have exec: "do_exec toy_os (screenshot_command ''NOPE'' ?file) toy_state0
        = (Inl (new_Error (''Command failed: '' @ screenshot_command ''NOPE'' ?file)), ?s2)"
      by (simp add: prod_eq_iff)
    have "\<exists>e. (Inl (new_Error (''Command failed: '' @ screenshot_command ''NOPE'' ?file)) = (Inl e :: thrown + string)
                \<or> (\<exists>out. (Inl (new_Error (''Command failed: '' @ screenshot_command ''NOPE'' ?file)) :: thrown + string) = Inr out
                      \<and> readFileSync toy_os ?file (world ?s2) = Inl e))
             \<and> fst (take_screenshot toy_os ''NOPE'' (Some ''a'') None toy_state0)
                = Inr [Text (''Error taking screenshot: '' @ message_or_string e)]
             \<and> screenshots (snd (take_screenshot toy_os ''NOPE'' (Some ''a'') None toy_state0)) = screenshots toy_state0
             \<and> resources (snd (take_screenshot toy_os ''NOPE'' (Some ''a'') None toy_state0)) = resources toy_state0"
      by (rule take_screenshot_all_or_nothing [OF path ens exec]) simp
    then have "fst (take_screenshot toy_os ''NOPE'' (Some ''a'') None toy_state0)
                = Inr [Text (''Error taking screenshot: '' @ message_or_string
                    (new_Error (''Command failed: '' @ screenshot_command ''NOPE'' ?file)))]
             \<and> screenshots (snd (take_screenshot toy_os ''NOPE'' (Some ''a'') None toy_state0)) = screenshots toy_state0
             \<and> resources (snd (take_screenshot toy_os ''NOPE'' (Some ''a'') None toy_state0)) = resources toy_state0"
      by auto
    moreover have "screenshots toy_state0 = []"
      and "resources toy_state0 = [(''screenshot://list'', ''screenshot-list'', ListCallback)]"
      by (simp_all add: toy_state0_def)
    moreover have "message_or_string (new_Error (''Command failed: '' @ screenshot_command ''NOPE'' ?file))
        = ''Command failed: '' @ screenshot_command ''NOPE'' ?file"
      by (simp add: message_or_string_def new_Error_def screenshot_command_def)
    ultimately show ?thesis
      using ens [unfolded dir] failed by simp
  qed
  show "fst (ensure_directory toy_os ''/locked'' toy_state0) = Inr ()
   \<and> fst (do_exec toy_os (screenshot_command ''D'' ''/locked/a.png'') (snd (ensure_directory toy_os ''/locked'' toy_state0)))
       = Inr []
   \<and> readFileSync toy_os ''/locked/a.png''
        (world (snd (do_exec toy_os (screenshot_command ''D'' ''/locked/a.png'')
                       (snd (ensure_directory toy_os ''/locked'' toy_state0)))))
       = Inl (new_Error ''EACCES: permission denied, open /locked/a.png'')
   \<and> fst (take_screenshot toy_os ''D'' (Some ''a'') (Some ''/locked/a.png'') toy_state0)
       = Inr [Text ''Error taking screenshot: EACCES: permission denied, open /locked/a.png'']
   \<and> screenshots (snd (take_screenshot toy_os ''D'' (Some ''a'') (Some ''/locked/a.png'') toy_state0)) = []
   \<and> resources (snd (take_screenshot toy_os ''D'' (Some ''a'') (Some ''/locked/a.png'') toy_state0))
       = [(''screenshot://list'', ''screenshot-list'', ListCallback)]"
  proof -
    let ?file = "''/locked/a.png''"
    let ?s1 = "snd (ensure_directory toy_os ''/locked'' toy_state0)"
    let ?s2 = "snd (do_exec toy_os (screenshot_command ''D'' ?file) ?s1)"
    have path: "?file = actualPath toy_os (Some ''a'') (Some ?file) (world toy_state0)"
      by (simp add: actualPath_def or_else_def)
    have dir: "path_dirname toy_os ?file = ''/locked''"
      by (simp add: toy_os_def toy_dirname_def)
    have made: "fst (ensure_directory toy_os ''/locked'' toy_state0) = Inr ()"
      by (simp add: ensure_directory_def do_mkdir_def toy_defs)
    then have ens: "ensure_directory toy_os (path_dirname toy_os ?file) toy_state0 = (Inr (), ?s1)"
      by (simp add: prod_eq_iff dir)
    have ran: "fst (do_exec toy_os (screenshot_command ''D'' ?file) ?s1) = Inr []"
      by (simp add: do_exec_def screenshot_command_def toy_os_def toy_exec_def split: prod.splits)
    then have exec: "do_exec toy_os (screenshot_command ''D'' ?file) ?s1 = (Inr [], ?s2)"
      by (simp add: prod_eq_iff)
    have unread: "readFileSync toy_os ?file (world ?s2)
        = Inl (new_Error ''EACCES: permission denied, open /locked/a.png'')"
      by (simp add: do_exec_def ensure_directory_def do_mkdir_def screenshot_command_def toy_defs
          split: prod.splits)
    have msg: "message_or_string (new_Error ''EACCES: permission denied, open /locked/a.png'')
        = ''EACCES: permission denied, open /locked/a.png''"
      by (simp add: message_or_string_def new_Error_def)
    have start: "screenshots toy_state0 = []"
      "resources toy_state0 = [(''screenshot://list'', ''screenshot-list'', ListCallback)]"
      by (simp_all add: toy_state0_def)
    have "\<exists>e. ((Inr [] :: thrown + string) = Inl e
                \<or> (\<exists>out. (Inr [] :: thrown + string) = Inr out \<and> readFileSync toy_os ?file (world ?s2) = Inl e))
             \<and> fst (take_screenshot toy_os ''D'' (Some ''a'') (Some ?file) toy_state0)
                = Inr [Text (''Error taking screenshot: '' @ message_or_string e)]
             \<and> screenshots (snd (take_screenshot toy_os ''D'' (Some ''a'') (Some ?file) toy_state0)) = screenshots toy_state0
             \<and> resources (snd (take_screenshot toy_os ''D'' (Some ''a'') (Some ?file) toy_state0)) = resources toy_state0"
      by (rule take_screenshot_all_or_nothing [OF path ens exec]) (simp add: unread)
    then have "fst (take_screenshot toy_os ''D'' (Some ''a'') (Some ?file) toy_state0)
                = Inr [Text (''Error taking screenshot: ''
                    @ message_or_string (new_Error ''EACCES: permission denied, open /locked/a.png''))]
             \<and> screenshots (snd (take_screenshot toy_os ''D'' (Some ''a'') (Some ?file) toy_state0)) = screenshots toy_state0
             \<and> resources (snd (take_screenshot toy_os ''D'' (Some ''a'') (Some ?file) toy_state0)) = resources toy_state0"
      by (auto simp: unread)
    then show ?thesis
      using made ran unread msg start by simp
  qed
qed

subsection \<open>Deleting a screenshot\<close>

text \<open>
  C6. When the name is in the map, \<^verbatim>\<open>delete_screenshot\<close> answers with the
  confirmation text, the name is no longer in the map, and every other name keeps its
  entry. When the name is not in the map, it answers with the not-found text and the
  state is the one it started from.
\<close>

theorem delete_screenshot_present_or_absent:
  "(Map_has name (screenshots s) \<longrightarrow>
      fst (delete_screenshot name s) = Inr [Text (''Successfully deleted screenshot: '' @ name)]
      \<and> \<not> Map_has name (screenshots (snd (delete_screenshot name s)))
      \<and> (\<forall>k. Map_get k (screenshots (snd (delete_screenshot name s)))
              = (if k = name then None else Map_get k (screenshots s))))
   \<and> (\<not> Map_has name (screenshots s) \<longrightarrow>
      delete_screenshot name s = (Inr [Text (''Screenshot not found: '' @ name)], s))"
  by (simp add: delete_screenshot_def delete_screenshot_try_def try_catch_def ret_def
      Map_get_delete Map_has_get)

theorem delete_screenshot_present_or_absent_witness:
  "Map_has ''a'' (screenshots (toy_state0\<lparr>screenshots := [(''a'', ''UE5HIQ=='')]\<rparr>))
   \<and> fst (delete_screenshot ''a'' (toy_state0\<lparr>screenshots := [(''a'', ''UE5HIQ=='')]\<rparr>))
       = Inr [Text ''Successfully deleted screenshot: a'']
   \<and> Map_get ''a'' (screenshots (snd (delete_screenshot ''a''
         (toy_state0\<lparr>screenshots := [(''a'', ''UE5HIQ=='')]\<rparr>)))) = None
   \<and> \<not> Map_has ''b'' (screenshots (toy_state0\<lparr>screenshots := [(''a'', ''UE5HIQ=='')]\<rparr>))
   \<and> delete_screenshot ''b'' (toy_state0\<lparr>screenshots := [(''a'', ''UE5HIQ=='')]\<rparr>)
       = (Inr [Text ''Screenshot not found: b''], toy_state0\<lparr>screenshots := [(''a'', ''UE5HIQ=='')]\<rparr>)"
  using delete_screenshot_present_or_absent
      [of "''a''" "toy_state0\<lparr>screenshots := [(''a'', ''UE5HIQ=='')]\<rparr>"]
    delete_screenshot_present_or_absent
      [of "''b''" "toy_state0\<lparr>screenshots := [(''a'', ''UE5HIQ=='')]\<rparr>"]
  by (simp add: Map_has_def)

text \<open>
  C8. \<^verbatim>\<open>delete_screenshot\<close> makes no call to the operating system and leaves the
  outside world, which holds the disk, as it was; the table of resources of the server
  is untouched too. Only the map of screenshots can differ afterwards.
\<close>

theorem delete_screenshot_leaves_the_disk:
  "world (snd (delete_screenshot name s)) = world s
   \<and> calls (snd (delete_screenshot name s)) = calls s
   \<and> resources (snd (delete_screenshot name s)) = resources s"
  by (simp add: delete_screenshot_def delete_screenshot_try_def try_catch_def ret_def)

subsection \<open>What the tools do to the map and to the table of resources\<close>

lemma do_exec_frame [simp]:
  "screenshots (snd (do_exec os command s)) = screenshots s"
  "resources (snd (do_exec os command s)) = resources s"
  by (simp_all add: do_exec_def split: prod.splits)

lemma ensure_directory_frame [simp]:
  "screenshots (snd (ensure_directory os dir s)) = screenshots s"
  "resources (snd (ensure_directory os dir s)) = resources s"
  by (simp_all add: ensure_directory_def do_mkdir_def ret_def split: prod.splits)

text \<open>
  The state after \<^verbatim>\<open>take_screenshot\<close>: either the map and the table are untouched, or
  the call got as far as \<^verbatim>\<open>registerScreenshotResource\<close>, run in a state with the map
  and the table of the start.
\<close>

lemma take_screenshot_registry:
  "\<exists>t. screenshots t = screenshots s \<and> resources t = resources s
       \<and> (snd (take_screenshot os deviceId name outputPath s) = t
          \<or> (\<exists>data. snd (take_screenshot os deviceId name outputPath s)
                = snd (registerScreenshotResource (screenshotName os name (world s)) data t)))"
proof -
  let ?file = "actualPath os name outputPath (world s)"
  obtain r0 s1 where ens: "ensure_directory os (path_dirname os ?file) s = (r0, s1)"
    by (cases "ensure_directory os (path_dirname os ?file) s")
  obtain r1 s2 where exec: "do_exec os (screenshot_command deviceId ?file) s1 = (r1, s2)"
    by (cases "do_exec os (screenshot_command deviceId ?file) s1")
  have k1: "screenshots s1 = screenshots s \<and> resources s1 = resources s"
    using ensure_directory_frame [of os "path_dirname os ?file" s] ens by simp
  have k2: "screenshots s2 = screenshots s \<and> resources s2 = resources s"
    using do_exec_frame [of os "screenshot_command deviceId ?file" s1] exec k1 by simp
  show ?thesis
  proof (cases r0)
    case (Inl e)
    then show ?thesis using ens k1
      by (intro exI [of _ s1]) (simp add: take_screenshot_def take_screenshot_try_def try_catch_returns bind_def Let_def)
  next
    case r0: (Inr u)
    show ?thesis
    proof (cases r1)
      case (Inl e)
      then show ?thesis using ens exec r0 k2
        by (intro exI [of _ s2]) (simp add: take_screenshot_def take_screenshot_try_def try_catch_returns bind_def Let_def)
    next
      case r1: (Inr out)
      show ?thesis
      proof (cases "readFileSync os ?file (world s2)")
        case (Inl e)
        then show ?thesis using ens exec r0 r1 k2
          by (intro exI [of _ s2])
            (simp add: take_screenshot_def take_screenshot_try_def try_catch_returns bind_def Let_def do_read_def)
      next
        case (Inr bytes)
        then have "snd (take_screenshot os deviceId name outputPath s)
            = snd (registerScreenshotResource (screenshotName os name (world s))
                     (toString_base64 os bytes) s2)"
          using ens exec r0 r1
          by (simp add: take_screenshot_def take_screenshot_try_def try_catch_returns bind_def ret_def
              Let_def do_read_def split: prod.splits sum.splits)
        then show ?thesis using k2 by blast
      qed
    qed
  qed
qed


lemma other_tools_frame:
  "screenshots (snd (get_booted_sim_id os s)) = screenshots s"
  "resources (snd (get_booted_sim_id os s)) = resources s"
  "screenshots (snd (get_all_simulators os s)) = screenshots s"
  "resources (snd (get_all_simulators os s)) = resources s"
  "screenshots (snd (boot_simulator os deviceId s)) = screenshots s"
  "resources (snd (boot_simulator os deviceId s)) = resources s"
  "resources (snd (delete_screenshot name s)) = resources s"
  by (simp_all add: tool_defs try_catch_returns bind_ret do_exec_def ret_def try_catch_def
      split: prod.splits sum.splits)

lemma register_keeps_resource:
  "map_of (resources s) uri = Some v \<Longrightarrow>
   map_of (resources (snd (registerScreenshotResource name data s))) uri = Some v"
  by (auto simp: registerScreenshotResource_def server_resource_def map_add_Some_iff)

lemma call_tool_keeps_resource:
  assumes "map_of (resources s) uri = Some v"
  shows "map_of (resources (snd (call_tool os c s))) uri = Some v"
proof (cases c)
  case (TakeScreenshot d n p)
  obtain t where t: "resources t = resources s"
    and "snd (take_screenshot os d n p s) = t
         \<or> (\<exists>data. snd (take_screenshot os d n p s)
               = snd (registerScreenshotResource (screenshotName os n (world s)) data t))"
    using take_screenshot_registry [of s os d n p] by blast
  then show ?thesis
    using assms TakeScreenshot register_keeps_resource [of t uri v] by auto
qed (use assms in \<open>simp_all add: other_tools_frame\<close>)

lemma evolves_keeps_resource:
  "evolves os s t \<Longrightarrow> map_of (resources s) uri = Some v \<Longrightarrow> map_of (resources t) uri = Some v"
  by (induction rule: evolves.induct) (auto simp: call_tool_keeps_resource)

lemma register_creates_handle:
  assumes "registerScreenshotResource name data s = (Inr (), s1)"
  shows "map_of (resources s1) (''screenshot://'' @ name) = Some (''screenshot-'' @ name, ScreenshotCallback data)"
  using assms
  by (auto simp: registerScreenshotResource_def server_resource_def map_add_Some_iff map_of_eq_None_iff
      split: if_splits)

lemma evolves_call_tools: "evolves os s (call_tools os cs s)"
proof -
  have "evolves os s t \<Longrightarrow> evolves os s (call_tools os cs t)" for t
    by (induction cs arbitrary: t) (auto intro: evolves_call)
  then show ?thesis by (simp add: evolves_refl)
qed

text \<open>
  C10. A resource created by a call of \<^verbatim>\<open>registerScreenshotResource\<close> with the
  argument \<open>data\<close> keeps returning that \<open>data\<close>: in every later state, after any
  number of tool calls, among them captures under the same name and
  \<^verbatim>\<open>delete_screenshot\<close> of the name, and whatever happens in the world meanwhile,
  the table of the server still holds, under the URI the registration gave it, the
  callback that registration created, and that callback returns \<open>data\<close> on whatever
  address the server runs it. This holds for every name; which requests the server
  leads to the entry is its own affair.
\<close>

theorem handle_returns_data_of_its_registration:
  assumes "registerScreenshotResource name data s = (Inr (), s1)"
    and "evolves os s1 s2"
  shows "map_of (resources s2) (''screenshot://'' @ name)
           = Some (''screenshot-'' @ name, ScreenshotCallback data)
       \<and> (\<forall>href. run_callback (ScreenshotCallback data) href s2 = [BlobContent href ''image/png'' data])"
  using evolves_keeps_resource [OF assms(2) register_creates_handle [OF assms(1)]]
  by simp

theorem handle_returns_data_of_its_registration_witness:
  "registerScreenshotResource ''a'' ''AAAA'' toy_state0
     = (Inr (), snd (registerScreenshotResource ''a'' ''AAAA'' toy_state0))
   \<and> evolves toy_os (snd (registerScreenshotResource ''a'' ''AAAA'' toy_state0))
        (call_tools toy_os [TakeScreenshot ''D'' (Some ''a'') None, DeleteScreenshot ''a'']
           (snd (registerScreenshotResource ''a'' ''AAAA'' toy_state0)))
   \<and> map_of (resources
        (call_tools toy_os [TakeScreenshot ''D'' (Some ''a'') None, DeleteScreenshot ''a'']
           (snd (registerScreenshotResource ''a'' ''AAAA'' toy_state0)))) ''screenshot://a''
       = Some (''screenshot-a'', ScreenshotCallback ''AAAA'')
   \<and> run_callback (ScreenshotCallback ''AAAA'') ''screenshot://a''
        (call_tools toy_os [TakeScreenshot ''D'' (Some ''a'') None, DeleteScreenshot ''a'']
           (snd (registerScreenshotResource ''a'' ''AAAA'' toy_state0)))
       = [BlobContent ''screenshot://a'' ''image/png'' ''AAAA'']"
proof -
  let ?s1 = "snd (registerScreenshotResource ''a'' ''AAAA'' toy_state0) :: toy_world state"
  let ?s2 = "call_tools toy_os [TakeScreenshot ''D'' (Some ''a'') None, DeleteScreenshot ''a''] ?s1"
  have "fst (registerScreenshotResource ''a'' ''AAAA'' toy_state0) = Inr ()"
    by (simp add: registerScreenshotResource_def server_resource_def toy_state0_def)
  then have reg: "registerScreenshotResource ''a'' ''AAAA'' toy_state0 = (Inr (), ?s1)"
    by (simp add: prod_eq_iff)
  have ev: "evolves toy_os ?s1 ?s2"
    by (rule evolves_call_tools)
  show ?thesis
    using handle_returns_data_of_its_registration [OF reg ev] reg ev by simp
qed

subsection \<open>The map and the resources can disagree\<close>

text \<open>
  What every reachable state has: one resource per URI at most, and a resource under
  the URI of every name in the map.
\<close>

lemma register_names_have_handles:
  "names_have_handles s \<Longrightarrow> names_have_handles (snd (registerScreenshotResource name data s))"
  by (auto simp: names_have_handles_def registerScreenshotResource_def server_resource_def Map_has_set)

lemma call_tool_names_have_handles:
  assumes "names_have_handles s"
  shows "names_have_handles (snd (call_tool os c s))"
proof (cases c)
  case (TakeScreenshot d n p)
  obtain t where t: "screenshots t = screenshots s" "resources t = resources s"
    and "snd (take_screenshot os d n p s) = t
         \<or> (\<exists>data. snd (take_screenshot os d n p s)
               = snd (registerScreenshotResource (screenshotName os n (world s)) data t))"
    using take_screenshot_registry [of s os d n p] by blast
  moreover have "names_have_handles t"
    using assms t by (simp add: names_have_handles_def)
  ultimately show ?thesis
    using TakeScreenshot register_names_have_handles [of t] by auto
next
  case (DeleteScreenshot n)
  then show ?thesis
    using assms
    by (auto simp: names_have_handles_def delete_screenshot_def delete_screenshot_try_def
        try_catch_def ret_def Map_has_delete)
qed (use assms in \<open>simp_all add: names_have_handles_def other_tools_frame\<close>)

lemma startup_names_have_handles:
  "startup os w = (Inr (), s) \<Longrightarrow> names_have_handles s"
  by (auto simp: startup_def bind_def ret_def do_mkdir_def server_resource_def names_have_handles_def
      Map_has_def split: if_splits prod.splits sum.splits)

lemma reachable_names_have_handles:
  assumes "reachable os s"
  shows "names_have_handles s"
proof -
  obtain w s0 where start: "startup os w = (Inr (), s0)" and ev: "evolves os s0 s"
    using assms by (auto simp: reachable_def)
  from ev startup_names_have_handles [OF start] show ?thesis
  proof (induction rule: evolves.induct)
    case (evolves_world t w')
    then show ?case by (simp add: names_have_handles_def)
  qed (auto intro: call_tool_names_have_handles)
qed

text \<open>
  A registration under a name whose URI is free returns, and the resource then yields
  the data registered; a registration under a name whose URI is taken stores the data
  in the map and throws, leaving the table as it was. The map itself always holds the
  data registered last.
\<close>

lemma register_then_Map_get:
  "Map_get name (screenshots (snd (registerScreenshotResource name data s))) = Some data"
  by (simp add: registerScreenshotResource_def server_resource_def Map_get_set)

lemma register_fresh:
  assumes "''screenshot://'' @ name \<notin> set (map fst (resources s))"
  shows "fst (registerScreenshotResource name data s) = Inr ()"
    and "read_resource (''screenshot://'' @ name) (snd (registerScreenshotResource name data s))
           = Inr [BlobContent (''screenshot://'' @ name) ''image/png'' data]"
proof -
  have none: "map_of (resources s) (''screenshot://'' @ name) = None"
    using assms by (simp add: map_of_eq_None_iff)
  show "fst (registerScreenshotResource name data s) = Inr ()"
    using assms by (simp add: registerScreenshotResource_def server_resource_def)
  show "read_resource (''screenshot://'' @ name) (snd (registerScreenshotResource name data s))
           = Inr [BlobContent (''screenshot://'' @ name) ''image/png'' data]"
    using assms none
    by (simp add: registerScreenshotResource_def server_resource_def read_resource_def map_add_def)
qed

lemma register_again:
  assumes "''screenshot://'' @ name \<in> set (map fst (resources s))"
  shows "fst (registerScreenshotResource name data s)
           = Inl (new_Error (''Resource screenshot://'' @ name @ '' is already registered''))"
    and "resources (snd (registerScreenshotResource name data s)) = resources s"
  using assms by (auto simp: registerScreenshotResource_def server_resource_def)

text \<open>
  The invariant of the specification is kept by a registration under a free URI and by
  \<^verbatim>\<open>delete_screenshot\<close>.
\<close>

lemma read_resource_blob_iff:
  "read_resource uri s = Inr [BlobContent uri ''image/png'' d]
     \<longleftrightarrow> (\<exists>nm. map_of (resources s) uri = Some (nm, ScreenshotCallback d))"
proof (cases "map_of (resources s) uri")
  case None
  then show ?thesis by (simp add: read_resource_def)
next
  case (Some entry)
  obtain nm cb where "entry = (nm, cb)" by (cases entry)
  with Some show ?thesis
    by (cases cb) (simp_all add: read_resource_def)
qed

lemma handles_current_iff:
  "handles_current s \<longleftrightarrow>
     (\<forall>n data. Map_get n (screenshots s) = Some data \<longrightarrow>
        (\<exists>nm. map_of (resources s) (''screenshot://'' @ n) = Some (nm, ScreenshotCallback data)))"
  by (simp add: handles_current_def read_resource_blob_iff)

lemma register_fresh_handles_current:
  assumes cur: "handles_current s"
    and fresh: "''screenshot://'' @ name \<notin> set (map fst (resources s))"
  shows "handles_current (snd (registerScreenshotResource name data s))"
  unfolding handles_current_iff
proof (intro allI impI)
  fix n d
  let ?s' = "snd (registerScreenshotResource name data s) :: 'a state"
  assume get: "Map_get n (screenshots ?s') = Some d"
  have shots: "screenshots ?s' = Map_set name data (screenshots s)"
    by (simp add: registerScreenshotResource_def server_resource_def)
  show "\<exists>nm. map_of (resources ?s') (''screenshot://'' @ n) = Some (nm, ScreenshotCallback d)"
  proof (cases "n = name")
    case True
    with get shots have "d = data" by (simp add: Map_get_set)
    moreover have "registerScreenshotResource name data s = (Inr (), ?s')"
      using register_fresh(1) [OF fresh, of data] by (simp add: prod_eq_iff)
    ultimately show ?thesis
      using True register_creates_handle by blast
  next
    case False
    with get shots have "Map_get n (screenshots s) = Some d" by (simp add: Map_get_set)
    with cur obtain nm where "map_of (resources s) (''screenshot://'' @ n) = Some (nm, ScreenshotCallback d)"
      by (auto simp: handles_current_iff)
    then show ?thesis
      using register_keeps_resource by blast
  qed
qed

lemma delete_handles_current:
  assumes "handles_current s"
  shows "handles_current (snd (delete_screenshot name s))"
  using assms
  by (auto simp: handles_current_iff delete_screenshot_def delete_screenshot_try_def try_catch_def
      ret_def Map_get_delete split: if_splits)

lemma toy_reachable: "reachable toy_os (call_tools toy_os cs toy_state0)"
  unfolding reachable_def using toy_start evolves_call_tools by blast

text \<open>The state after two captures under one name does not have the invariant.\<close>

lemma recapture_breaks_invariant:
  "\<not> handles_current
     (call_tools toy_os [TakeScreenshot ''D'' (Some ''a'') None, TakeScreenshot ''D'' (Some ''a'') None] toy_state0)"
proof
  let ?s = "call_tools toy_os [TakeScreenshot ''D'' (Some ''a'') None, TakeScreenshot ''D'' (Some ''a'') None] toy_state0"
  assume "handles_current ?s"
  moreover have "Map_get ''a'' (screenshots ?s) = Some ''UE5HISE=''"
    by (simp add: tool_defs action_defs toy_defs Let_def or_else_def Map_set_def Map_get_def)
  ultimately have "read_resource (''screenshot://'' @ ''a'') ?s
      = Inr [BlobContent (''screenshot://'' @ ''a'') ''image/png'' ''UE5HISE='']"
    unfolding handles_current_def by blast
  moreover have "read_resource ''screenshot://a'' ?s = Inr [BlobContent ''screenshot://a'' ''image/png'' ''UE5HIQ=='']"
    by (simp add: tool_defs action_defs toy_defs Let_def or_else_def Map_set_def read_resource_def)
  ultimately show False by simp
qed

text \<open>
  C1. The claim is that in every reachable state each name in the map has exactly one
  resource \<^verbatim>\<open>screenshot://<name>\<close> and that reading it yields the bytes the map holds
  for the name. The module breaks the second half. Two captures under the name
  \<^verbatim>\<open>a\<close>: the second call stores the new image in the map, then
  \<^verbatim>\<open>server.resource\<close> refuses the URI, so the handler answers with an error text
  although the capture succeeded; the state reached holds the second image in the map,
  and the resource still returns the first.
\<close>

theorem recapture_leaves_stale_handle:
  "reachable toy_os
     (call_tools toy_os [TakeScreenshot ''D'' (Some ''a'') None, TakeScreenshot ''D'' (Some ''a'') None] toy_state0)
   \<and> fst (call_tool toy_os (TakeScreenshot ''D'' (Some ''a'') None)
           (call_tools toy_os [TakeScreenshot ''D'' (Some ''a'') None] toy_state0))
       = Inr [Text ''Error taking screenshot: Resource screenshot://a is already registered'']
   \<and> Map_get ''a'' (screenshots
        (call_tools toy_os [TakeScreenshot ''D'' (Some ''a'') None, TakeScreenshot ''D'' (Some ''a'') None] toy_state0))
       = Some ''UE5HISE=''
   \<and> read_resource ''screenshot://a''
        (call_tools toy_os [TakeScreenshot ''D'' (Some ''a'') None, TakeScreenshot ''D'' (Some ''a'') None] toy_state0)
       = Inr [BlobContent ''screenshot://a'' ''image/png'' ''UE5HIQ=='']"
proof -
  have "reachable toy_os
     (call_tools toy_os [TakeScreenshot ''D'' (Some ''a'') None, TakeScreenshot ''D'' (Some ''a'') None] toy_state0)"
    by (rule toy_reachable)
  then show ?thesis
    by (simp add: tool_defs action_defs toy_defs Let_def or_else_def Map_set_def Map_get_def
        new_Error_def message_or_string_def read_resource_def)
qed

text \<open>
  C2. The claim is that registering twice under one name and then resolving the name
  yields the second byte string, the resource of the name being reused. In the module
  the second call of \<^verbatim>\<open>registerScreenshotResource\<close> throws: the sequence register,
  register, read ends with the thrown error and the read is never reached. Read after
  the throw, the resource returns the first byte string, while the map holds the second.
\<close>

theorem reregistration_throws:
  "fst (registerScreenshotResource ''a'' ''BBBB'' (snd (registerScreenshotResource ''a'' ''AAAA'' toy_state0)))
     = Inl (new_Error ''Resource screenshot://a is already registered'')
   \<and> fst (register_register_read ''a'' ''AAAA'' ''BBBB'' toy_state0)
     = Inl (new_Error ''Resource screenshot://a is already registered'')
   \<and> read_resource ''screenshot://a''
        (snd (registerScreenshotResource ''a'' ''BBBB'' (snd (registerScreenshotResource ''a'' ''AAAA'' toy_state0))))
     = Inr [BlobContent ''screenshot://a'' ''image/png'' ''AAAA'']
   \<and> Map_get ''a'' (screenshots
        (snd (registerScreenshotResource ''a'' ''BBBB'' (snd (registerScreenshotResource ''a'' ''AAAA'' toy_state0)))))
     = Some ''BBBB''"
  by (simp add: register_register_read_def action_defs toy_state0_def Map_set_def Map_get_def
      read_resource_def)

end
